theory Spec2Isabelle
  imports Complex_Main
begin

section \<open>JavaScript numbers\<close>

text \<open>
  The tracker computes with JavaScript numbers. A number is modelled as an exact rational,
  one of the two infinities, or NaN. The special values follow IEEE 754 (a sum of opposite
  infinities is NaN, a comparison with NaN is false, a non-zero value divided by zero is an
  infinity). Finite values are exact: the rounding of binary doubles, overflow of a finite
  result and the sign of zero are outside the model.
\<close>

datatype jsnum = Fin rat | PosInf | NegInf | NaN

fun isNaN :: "jsnum \<Rightarrow> bool" where
  "isNaN NaN = True"
| "isNaN _ = False"

fun isFinite :: "jsnum \<Rightarrow> bool" where
  "isFinite (Fin _) = True"
| "isFinite _ = False"

fun jneg :: "jsnum \<Rightarrow> jsnum" where
  "jneg (Fin a) = Fin (- a)"
| "jneg PosInf = NegInf"
| "jneg NegInf = PosInf"
| "jneg NaN = NaN"

fun jadd :: "jsnum \<Rightarrow> jsnum \<Rightarrow> jsnum" where
  "jadd (Fin a) (Fin b) = Fin (a + b)"
| "jadd NaN _ = NaN"
| "jadd _ NaN = NaN"
| "jadd PosInf NegInf = NaN"
| "jadd NegInf PosInf = NaN"
| "jadd PosInf _ = PosInf"
| "jadd _ PosInf = PosInf"
| "jadd NegInf _ = NegInf"
| "jadd _ NegInf = NegInf"

definition jsub :: "jsnum \<Rightarrow> jsnum \<Rightarrow> jsnum" where
  "jsub a b = jadd a (jneg b)"

fun jmul :: "jsnum \<Rightarrow> jsnum \<Rightarrow> jsnum" where
  "jmul (Fin a) (Fin b) = Fin (a * b)"
| "jmul NaN _ = NaN"
| "jmul _ NaN = NaN"
| "jmul (Fin a) y = (if a = 0 then NaN else if 0 < a then y else jneg y)"
| "jmul x (Fin b) = (if b = 0 then NaN else if 0 < b then x else jneg x)"
| "jmul PosInf y = y"
| "jmul NegInf y = jneg y"

fun jdiv :: "jsnum \<Rightarrow> jsnum \<Rightarrow> jsnum" where
  "jdiv (Fin a) (Fin b) =
     (if b = 0 then (if a = 0 then NaN else if 0 < a then PosInf else NegInf)
      else Fin (a / b))"
| "jdiv NaN _ = NaN"
| "jdiv _ NaN = NaN"
| "jdiv (Fin a) _ = Fin 0"
| "jdiv x (Fin b) = (if 0 \<le> b then x else jneg x)"
| "jdiv _ _ = NaN"

fun jlt :: "jsnum \<Rightarrow> jsnum \<Rightarrow> bool" where
  "jlt (Fin a) (Fin b) = (a < b)"
| "jlt NaN _ = False"
| "jlt _ NaN = False"
| "jlt PosInf _ = False"
| "jlt _ NegInf = False"
| "jlt NegInf _ = True"
| "jlt _ PosInf = True"

definition jgt :: "jsnum \<Rightarrow> jsnum \<Rightarrow> bool" where
  "jgt a b = jlt b a"

definition jle :: "jsnum \<Rightarrow> jsnum \<Rightarrow> bool" where
  "jle a b = (\<not> isNaN a \<and> \<not> isNaN b \<and> (a = b \<or> jlt a b))"

definition jge :: "jsnum \<Rightarrow> jsnum \<Rightarrow> bool" where
  "jge a b = jle b a"

fun jabs :: "jsnum \<Rightarrow> jsnum" where
  "jabs (Fin a) = Fin \<bar>a\<bar>"
| "jabs NaN = NaN"
| "jabs _ = PosInf"

text \<open>
  The idiom \<^verbatim>\<open>x || 0\<close> on an optional numeric field: a missing field, NaN and zero are
  falsy and give 0; any other number is kept.
\<close>

definition orZero :: "jsnum option \<Rightarrow> jsnum" where
  "orZero v = (case v of None \<Rightarrow> Fin 0
                | Some x \<Rightarrow> (if x = NaN \<or> x = Fin 0 then Fin 0 else x))"

section \<open>Data model\<close>

text \<open>
  The interfaces \<^verbatim>\<open>PnlData\<close>, \<^verbatim>\<open>Suggestion\<close> and \<^verbatim>\<open>Position\<close>. Optional fields
  (\<^verbatim>\<open>field?: number\<close>) are options. Timestamps, ISO strings in the source, are held as
  the milliseconds since the epoch that \<^verbatim>\<open>new Date(s).getTime()\<close> reads from them.
\<close>

record PnlData =
  unrealized_pnl_usd :: jsnum
  realized_pnl_usd :: jsnum
  total_pnl_usd :: jsnum
  pnl_percentage :: jsnum
  initial_value_usd :: jsnum
  current_value_usd :: jsnum
  total_invested_usd :: jsnum
  unrealized_pnl_sol :: jsnum
  realized_pnl_sol :: jsnum
  total_pnl_sol :: jsnum
  initial_value_sol :: jsnum
  current_value_sol :: jsnum
  total_invested_sol :: jsnum

datatype Action = HOLD | TOP_UP | REDUCE | TAKE_PROFIT | STOP_LOSS

datatype Confidence = LOW | MEDIUM | HIGH

record Suggestion =
  action :: Action
  reason :: string
  confidence :: Confidence

record Position =
  pos_id :: string
  token :: string
  initial_value_usd :: jsnum
  fees_claimed_usd :: jsnum
  created_at :: int
  last_updated :: int
  capital_additions_usd :: "jsnum option"
  withdrawn_usd :: "jsnum option"
  total_invested_usd :: "jsnum option"
  closed_at :: "int option"
  exit_value_usd :: "jsnum option"
  final_pnl_usd :: "jsnum option"
  final_pnl_percentage :: "jsnum option"
  is_closed :: "bool option"

section \<open>PnL engine\<close>

text \<open>
  \<^verbatim>\<open>calculatePnl(position, currentValueUSD)\<close>. The price that the source awaits from
  \<^verbatim>\<open>getSOLPriceUSD()\<close> is the parameter \<open>solPriceUSD\<close>. The source reads the position
  and assigns to none of its fields, so the model returns the \<^verbatim>\<open>PnlData\<close> alone.
\<close>

definition calculatePnl :: "jsnum \<Rightarrow> Position \<Rightarrow> jsnum \<Rightarrow> PnlData" where
  "calculatePnl solPriceUSD position currentValueUSD =
    (let capitalAdditions = orZero (capital_additions_usd position);
         withdrawn = orZero (withdrawn_usd position);
         totalInvestedUSD = jadd (Position.initial_value_usd position) capitalAdditions;
         currentlyInvestedUSD = jsub totalInvestedUSD withdrawn;
         totalValueUSD = jadd (jadd currentValueUSD withdrawn) (fees_claimed_usd position);
         totalPnlUSD = jsub totalValueUSD totalInvestedUSD;
         unrealizedPnlUSD = jsub currentValueUSD currentlyInvestedUSD;
         realizedPnlUSD = jadd withdrawn (fees_claimed_usd position);
         pnlPercentage = (if jgt totalInvestedUSD (Fin 0)
                          then jmul (jdiv totalPnlUSD totalInvestedUSD) (Fin 100) else Fin 0);
         unrealizedPnlSOL = (if jgt solPriceUSD (Fin 0) then jdiv unrealizedPnlUSD solPriceUSD else Fin 0);
         realizedPnlSOL = (if jgt solPriceUSD (Fin 0) then jdiv realizedPnlUSD solPriceUSD else Fin 0);
         totalPnlSOL = (if jgt solPriceUSD (Fin 0) then jdiv totalPnlUSD solPriceUSD else Fin 0);
         currentValueSOL = (if jgt solPriceUSD (Fin 0) then jdiv currentValueUSD solPriceUSD else Fin 0);
         initialValueSOL = (if jgt solPriceUSD (Fin 0)
                            then jdiv (Position.initial_value_usd position) solPriceUSD else Fin 0);
         totalInvestedSOL = (if jgt solPriceUSD (Fin 0) then jdiv totalInvestedUSD solPriceUSD else Fin 0)
     in \<lparr> unrealized_pnl_usd = unrealizedPnlUSD,
          realized_pnl_usd = realizedPnlUSD,
          total_pnl_usd = totalPnlUSD,
          pnl_percentage = pnlPercentage,
          PnlData.initial_value_usd = Position.initial_value_usd position,
          current_value_usd = currentValueUSD,
          PnlData.total_invested_usd = totalInvestedUSD,
          unrealized_pnl_sol = unrealizedPnlSOL,
          realized_pnl_sol = realizedPnlSOL,
          total_pnl_sol = totalPnlSOL,
          initial_value_sol = initialValueSOL,
          current_value_sol = currentValueSOL,
          total_invested_sol = totalInvestedSOL \<rparr>)"

section \<open>Suggestion engine\<close>

definition THRESHOLDS_TAKE_PROFIT :: jsnum where "THRESHOLDS_TAKE_PROFIT = Fin 25"
definition THRESHOLDS_STRONG_PROFIT :: jsnum where "THRESHOLDS_STRONG_PROFIT = Fin 15"
definition THRESHOLDS_MODERATE_PROFIT :: jsnum where "THRESHOLDS_MODERATE_PROFIT = Fin 5"
definition THRESHOLDS_BREAK_EVEN :: jsnum where "THRESHOLDS_BREAK_EVEN = Fin 0"
definition THRESHOLDS_MODERATE_LOSS :: jsnum where "THRESHOLDS_MODERATE_LOSS = Fin (- 10)"
definition THRESHOLDS_STOP_LOSS :: jsnum where "THRESHOLDS_STOP_LOSS = Fin (- 20)"
definition THRESHOLDS_HIGH_FEES_RATIO :: jsnum where "THRESHOLDS_HIGH_FEES_RATIO = Fin (4 / 5)"

text \<open>Decimal rendering of an integer, as a template literal prints a whole number.\<close>

definition digit_char :: "nat \<Rightarrow> char" where
  "digit_char n = char_of (48 + n)"

function show_nat :: "nat \<Rightarrow> string" where
  "show_nat n = (if n < 10 then [digit_char n] else show_nat (n div 10) @ [digit_char (n mod 10)])"
  by pat_completeness auto
termination
  by (relation "measure id") auto

declare show_nat.simps [simp del]

definition show_int :: "int \<Rightarrow> string" where
  "show_int i = (if i < 0 then CHR ''-'' # show_nat (nat (- i)) else show_nat (nat i))"

text \<open>
  \<^verbatim>\<open>generateSuggestion(position, pnlData)\<close>. \<open>toFixed x d\<close> stands for
  \<^verbatim>\<open>x.toFixed(d)\<close> and \<open>now\<close> for \<^verbatim>\<open>Date.now()\<close>; both are parameters. The first
  condition is written with a nested \<open>if\<close>, as \<^verbatim>\<open>&&\<close> evaluates its right operand only
  when the left one holds.
\<close>

definition generateSuggestion ::
  "(jsnum \<Rightarrow> nat \<Rightarrow> string) \<Rightarrow> int \<Rightarrow> Position \<Rightarrow> PnlData \<Rightarrow> Suggestion" where
  "generateSuggestion toFixed now position pnlData =
    (let pnlPercent = pnl_percentage pnlData;
         unrealizedPnlUSD = unrealized_pnl_usd pnlData;
         realizedPnlUSD = realized_pnl_usd pnlData;
         daysOpen = (now - created_at position) div (1000 * 60 * 60 * 24)
     in
     if (if jgt unrealizedPnlUSD (Fin 10)
         then jgt (jdiv realizedPnlUSD unrealizedPnlUSD) THRESHOLDS_HIGH_FEES_RATIO else False)
     then \<lparr> action = TAKE_PROFIT,
            reason = ''High fees earned (''
              @ toFixed (jmul (jdiv realizedPnlUSD unrealizedPnlUSD) (Fin 100)) 0
              @ ''% of unrealized gains). Secure profits before market turns.'',
            confidence = HIGH \<rparr>
     else if jge pnlPercent THRESHOLDS_TAKE_PROFIT
     then \<lparr> action = TAKE_PROFIT,
            reason = ''Excellent '' @ toFixed pnlPercent 1
              @ ''% return! Consider taking partial profits to secure gains.'',
            confidence = HIGH \<rparr>
     else if jge pnlPercent THRESHOLDS_STRONG_PROFIT
     then \<lparr> action = REDUCE,
            reason = ''Strong '' @ toFixed pnlPercent 1
              @ ''% profit. Consider reducing position size to lock in gains while maintaining exposure.'',
            confidence = MEDIUM \<rparr>
     else if jle pnlPercent THRESHOLDS_STOP_LOSS
     then \<lparr> action = STOP_LOSS,
            reason = ''Position down '' @ toFixed (jabs pnlPercent) 1
              @ ''%. Consider cutting losses to preserve capital.'',
            confidence = HIGH \<rparr>
     else if jle pnlPercent THRESHOLDS_MODERATE_LOSS
     then (if 30 < daysOpen
           then \<lparr> action = REDUCE,
                  reason = ''Position down '' @ toFixed (jabs pnlPercent) 1 @ ''% for ''
                    @ show_int daysOpen
                    @ '' days. Consider reducing exposure or reevaluating thesis.'',
                  confidence = MEDIUM \<rparr>
           else \<lparr> action = HOLD,
                  reason = ''Down '' @ toFixed (jabs pnlPercent) 1
                    @ ''% but position is recent ('' @ show_int daysOpen
                    @ '' days). Monitor closely.'',
                  confidence = LOW \<rparr>)
     else if jge pnlPercent THRESHOLDS_BREAK_EVEN \<and> jlt pnlPercent THRESHOLDS_MODERATE_PROFIT
     then (if jgt realizedPnlUSD (Fin 0)
           then \<lparr> action = TOP_UP,
                  reason = ''Near breakeven with $'' @ toFixed realizedPnlUSD 2
                    @ '' in fees earned. Position showing promise - consider increasing.'',
                  confidence = MEDIUM \<rparr>
           else \<lparr> action = HOLD,
                  reason = ''Position near breakeven. Monitor for clear direction before making changes.'',
                  confidence = LOW \<rparr>)
     else if jge pnlPercent THRESHOLDS_MODERATE_PROFIT \<and> jlt pnlPercent THRESHOLDS_STRONG_PROFIT
     then \<lparr> action = HOLD,
            reason = ''Good '' @ toFixed pnlPercent 1
              @ ''% profit with momentum. Hold position and monitor for further gains.'',
            confidence = MEDIUM \<rparr>
     else \<lparr> action = HOLD,
            reason = ''Position performing as expected. Continue monitoring market conditions.'',
            confidence = LOW \<rparr>)"

text \<open>
  \<^verbatim>\<open>Number.prototype.toFixed\<close> on the modelled numbers, for magnitudes below \<open>10\<^sup>2\<^sup>1\<close>
  (above, JavaScript switches to exponent notation): the value is rounded to \<open>d\<close> decimals,
  a tie going to the larger magnitude, and a negative value keeps its sign.
\<close>

definition toFixed_dec :: "jsnum \<Rightarrow> nat \<Rightarrow> string" where
  "toFixed_dec x d =
    (case x of
       NaN \<Rightarrow> ''NaN''
     | PosInf \<Rightarrow> ''Infinity''
     | NegInf \<Rightarrow> ''-Infinity''
     | Fin r \<Rightarrow>
        (let n = nat \<lfloor>\<bar>r\<bar> * 10 ^ d + 1 / 2\<rfloor>;
             whole = show_nat (n div 10 ^ d);
             frac = show_nat (n mod 10 ^ d)
         in (if r < 0 then ''-'' else [])
            @ whole
            @ (if d = 0 then [] else CHR ''.'' # replicate (d - length frac) CHR ''0'' @ frac)))"

section \<open>Position store\<close>

text \<open>
  \<^verbatim>\<open>Record<string, Position>\<close> is a list of positions in the order \<^verbatim>\<open>Object.values\<close>
  visits them. After \<^verbatim>\<open>loadPositions\<close> every entry is stored under its own id, so the key
  of an entry is its \<open>pos_id\<close>; \<^verbatim>\<open>positions[p.id] = p\<close> is \<open>upsert\<close> and
  \<^verbatim>\<open>delete positions[id]\<close> is \<open>deleteKey\<close>.
\<close>

definition lower_char :: "char \<Rightarrow> char" where
  "lower_char c =
     (let n = (of_char c :: nat) in if 65 \<le> n \<and> n \<le> 90 then char_of (n + 32) else c)"

definition toLowerCase :: "string \<Rightarrow> string" where
  "toLowerCase s = map lower_char s"

fun upsert :: "Position \<Rightarrow> Position list \<Rightarrow> Position list" where
  "upsert p [] = [p]"
| "upsert p (q # qs) = (if pos_id q = pos_id p then p # qs else q # upsert p qs)"

definition deleteKey :: "string \<Rightarrow> Position list \<Rightarrow> Position list" where
  "deleteKey k positions = filter (\<lambda>q. pos_id q \<noteq> k) positions"

text \<open>
  \<^verbatim>\<open>loadPositions\<close> on a file in the current schema: every entry has a non-empty id and no
  \<^verbatim>\<open>capital_reduction_usd\<close>, so the two legacy branches are skipped and each entry gets
  \<^verbatim>\<open>total_invested_usd\<close> recomputed before it is stored under its id. A missing or
  unreadable file is the empty list.
\<close>

definition fixTotalInvested :: "Position \<Rightarrow> Position" where
  "fixTotalInvested pos =
     (let capitalAdditions = orZero (capital_additions_usd pos)
      in pos\<lparr> total_invested_usd :=
                Some (jadd (Position.initial_value_usd pos) capitalAdditions) \<rparr>)"

definition loadPositions :: "Position list \<Rightarrow> Position list" where
  "loadPositions file = foldl (\<lambda>migratedPositions pos. upsert (fixTotalInvested pos) migratedPositions) [] file"

definition isActiveFor :: "string \<Rightarrow> Position \<Rightarrow> bool" where
  "isActiveFor tok position =
     (toLowerCase (token position) = toLowerCase tok \<and> is_closed position \<noteq> Some True)"

definition findActivePosition :: "Position list \<Rightarrow> string \<Rightarrow> Position option" where
  "findActivePosition positions tok = find (isActiveFor tok) positions"

definition findClosedPositions :: "Position list \<Rightarrow> string \<Rightarrow> Position list" where
  "findClosedPositions positions tok =
     filter (\<lambda>pos. toLowerCase (token pos) = toLowerCase tok \<and> is_closed pos = Some True) positions"

text \<open>
  The commands assign to the object that \<^verbatim>\<open>findActivePosition\<close> returned, which is the
  first active entry for the token: \<open>updateActive\<close> applies the assignment to that entry.
\<close>

fun updateActive :: "string \<Rightarrow> (Position \<Rightarrow> Position) \<Rightarrow> Position list \<Rightarrow> Position list" where
  "updateActive tok f [] = []"
| "updateActive tok f (p # ps) =
     (if isActiveFor tok p then f p # ps else p # updateActive tok f ps)"

text \<open>
  What a run takes from outside: \<^verbatim>\<open>parseFloat\<close>, the clock \<^verbatim>\<open>Date.now()\<close> and the
  nine characters \<^verbatim>\<open>Math.random().toString(36).substr(2, 9)\<close>.
\<close>

record Runtime =
  parseFloat :: "string \<Rightarrow> jsnum"
  dateNow :: int
  mathRandom :: string

definition generatePositionId :: "Runtime \<Rightarrow> string \<Rightarrow> string" where
  "generatePositionId rt tok =
     toLowerCase tok @ ''_'' @ show_int (dateNow rt) @ ''_'' @ mathRandom rt"

definition initializePosition :: "Runtime \<Rightarrow> string \<Rightarrow> jsnum \<Rightarrow> Position" where
  "initializePosition rt tok initialValueUSD =
     \<lparr> pos_id = generatePositionId rt tok,
       token = tok,
       Position.initial_value_usd = initialValueUSD,
       fees_claimed_usd = Fin 0,
       created_at = dateNow rt,
       last_updated = dateNow rt,
       capital_additions_usd = Some (Fin 0),
       withdrawn_usd = Some (Fin 0),
       Position.total_invested_usd = Some initialValueUSD,
       closed_at = None,
       exit_value_usd = None,
       final_pnl_usd = None,
       final_pnl_percentage = None,
       is_closed = None \<rparr>"

section \<open>Commands\<close>

text \<open>
  A run ends in \<^verbatim>\<open>process.exit(1)\<close> before any write (\<open>Exit\<close>, with the check that
  failed), in a call of \<^verbatim>\<open>savePositions\<close> (\<open>Saved\<close>, with the store handed to it), or
  returns without writing (\<open>Returned\<close>). Console output and a failure of the file system
  inside \<^verbatim>\<open>savePositions\<close> are not modelled.
\<close>

datatype Failure = Usage | NotANumber | NotPositive | NotFound

datatype Outcome = Exit Failure | Saved "Position list" | Returned

text \<open>\<^verbatim>\<open>if (x === undefined) x = 0\<close> on an optional field.\<close>

definition initMissing :: "jsnum option \<Rightarrow> jsnum" where
  "initMissing v = (case v of None \<Rightarrow> Fin 0 | Some x \<Rightarrow> x)"

definition claimFeePosition :: "jsnum \<Rightarrow> int \<Rightarrow> Position \<Rightarrow> Position" where
  "claimFeePosition feesToClaimUSD now position =
     position\<lparr> fees_claimed_usd := jadd (fees_claimed_usd position) feesToClaimUSD,
               last_updated := now \<rparr>"

definition addCapitalPosition :: "jsnum \<Rightarrow> int \<Rightarrow> Position \<Rightarrow> Position" where
  "addCapitalPosition additionalCapital now position =
     (let additions = jadd (initMissing (capital_additions_usd position)) additionalCapital
      in position\<lparr> capital_additions_usd := Some additions,
                   withdrawn_usd := Some (initMissing (withdrawn_usd position)),
                   Position.total_invested_usd :=
                     Some (jadd (Position.initial_value_usd position) additions),
                   last_updated := now \<rparr>)"

definition withdrawPosition :: "jsnum \<Rightarrow> int \<Rightarrow> Position \<Rightarrow> Position" where
  "withdrawPosition amountToTake now position =
     (let additions = initMissing (capital_additions_usd position);
          totalInvested = jadd (Position.initial_value_usd position) additions
      in position\<lparr> capital_additions_usd := Some additions,
                   withdrawn_usd := Some (jadd (initMissing (withdrawn_usd position)) amountToTake),
                   Position.total_invested_usd := Some totalInvested,
                   last_updated := now \<rparr>)"

definition closePosition :: "jsnum \<Rightarrow> jsnum \<Rightarrow> int \<Rightarrow> Position \<Rightarrow> Position" where
  "closePosition exitValueUSD finalFeesUSD now position =
     (let additions = initMissing (capital_additions_usd position);
          withdrawn0 = initMissing (withdrawn_usd position);
          fees = jadd (fees_claimed_usd position) finalFeesUSD;
          totalInvested = jadd (Position.initial_value_usd position) additions;
          withdrawn = orZero (Some withdrawn0);
          totalValueUSD = jadd (jadd exitValueUSD withdrawn) fees;
          finalTotalPnlUSD = jsub totalValueUSD totalInvested;
          finalPnlPercentage = (if jgt totalInvested (Fin 0)
                                then jmul (jdiv finalTotalPnlUSD totalInvested) (Fin 100) else Fin 0)
      in position\<lparr> capital_additions_usd := Some additions,
                   withdrawn_usd := Some withdrawn0,
                   fees_claimed_usd := fees,
                   closed_at := Some now,
                   exit_value_usd := Some exitValueUSD,
                   final_pnl_usd := Some finalTotalPnlUSD,
                   final_pnl_percentage := Some finalPnlPercentage,
                   Position.total_invested_usd := Some totalInvested,
                   is_closed := Some True,
                   last_updated := now \<rparr>)"

text \<open>
  The clean command reads \<^verbatim>\<open>initial_value_usd || initial_value || 0\<close>; a position of the
  current schema has no \<^verbatim>\<open>initial_value\<close> field, which leaves \<^verbatim>\<open>initial_value_usd || 0\<close>.
\<close>

definition cmd_clean :: "Position list \<Rightarrow> Outcome" where
  "cmd_clean positions =
     Saved (filter (\<lambda>position. \<not> jgt (orZero (Some (Position.initial_value_usd position))) (Fin 10000))
              positions)"

definition cmd_remove :: "string list \<Rightarrow> Position list \<Rightarrow> Outcome" where
  "cmd_remove args positions =
     (if length args < 2 then Exit Usage
      else let tok = toLowerCase (args ! 1) in
        case findActivePosition positions tok of
          None \<Rightarrow> Exit NotFound
        | Some position \<Rightarrow> Saved (deleteKey (pos_id position) positions))"

definition cmd_reset :: "Runtime \<Rightarrow> string list \<Rightarrow> Position list \<Rightarrow> Outcome" where
  "cmd_reset rt args positions =
     (if length args < 3 then Exit Usage
      else let tok = toLowerCase (args ! 1);
               newInitialValue = parseFloat rt (args ! 2) in
        if isNaN newInitialValue then Exit NotANumber
        else case findActivePosition positions tok of
          None \<Rightarrow> Exit NotFound
        | Some oldPosition \<Rightarrow>
            Saved (upsert (initializePosition rt tok newInitialValue)
                     (deleteKey (pos_id oldPosition) positions)))"

definition cmd_claim_fee :: "Runtime \<Rightarrow> string list \<Rightarrow> Position list \<Rightarrow> Outcome" where
  "cmd_claim_fee rt args positions =
     (if length args < 3 then Exit Usage
      else let tok = toLowerCase (args ! 1);
               feesToClaimUSD = parseFloat rt (args ! 2) in
        if isNaN feesToClaimUSD then Exit NotANumber
        else if jle feesToClaimUSD (Fin 0) then Exit NotPositive
        else case findActivePosition positions tok of
          None \<Rightarrow> Exit NotFound
        | Some position \<Rightarrow>
            Saved (updateActive tok (claimFeePosition feesToClaimUSD (dateNow rt)) positions))"

definition cmd_add_capital :: "Runtime \<Rightarrow> string list \<Rightarrow> Position list \<Rightarrow> Outcome" where
  "cmd_add_capital rt args positions =
     (if length args < 3 then Exit Usage
      else let tok = toLowerCase (args ! 1);
               additionalCapital = parseFloat rt (args ! 2) in
        if isNaN additionalCapital then Exit NotANumber
        else if jle additionalCapital (Fin 0) then Exit NotPositive
        else case findActivePosition positions tok of
          None \<Rightarrow> Exit NotFound
        | Some position \<Rightarrow>
            Saved (updateActive tok (addCapitalPosition additionalCapital (dateNow rt)) positions))"

definition cmd_withdraw :: "Runtime \<Rightarrow> string list \<Rightarrow> Position list \<Rightarrow> Outcome" where
  "cmd_withdraw rt args positions =
     (if length args < 3 then Exit Usage
      else let tok = toLowerCase (args ! 1);
               amountToTake = parseFloat rt (args ! 2) in
        if isNaN amountToTake then Exit NotANumber
        else if jle amountToTake (Fin 0) then Exit NotPositive
        else case findActivePosition positions tok of
          None \<Rightarrow> Exit NotFound
        | Some position \<Rightarrow>
            Saved (updateActive tok (withdrawPosition amountToTake (dateNow rt)) positions))"

definition cmd_close :: "Runtime \<Rightarrow> string list \<Rightarrow> Position list \<Rightarrow> Outcome" where
  "cmd_close rt args positions =
     (if length args < 3 then Exit Usage
      else let tok = toLowerCase (args ! 1);
               exitValueUSD = parseFloat rt (args ! 2);
               finalFeesUSD = (if 4 \<le> length args then parseFloat rt (args ! 3) else Fin 0) in
        if 4 \<le> length args \<and> isNaN finalFeesUSD then Exit NotANumber
        else if isNaN exitValueUSD then Exit NotANumber
        else if jle exitValueUSD (Fin 0) then Exit NotPositive
        else case findActivePosition positions tok of
          None \<Rightarrow> Exit NotFound
        | Some position \<Rightarrow>
            Saved (updateActive tok (closePosition exitValueUSD finalFeesUSD (dateNow rt)) positions))"

text \<open>
  The generic command \<^verbatim>\<open><token> <value> [fees]\<close>: it opens a position when the token has no
  active one, and otherwise adds the fees to the active one.
\<close>

definition cmd_record :: "Runtime \<Rightarrow> string \<Rightarrow> string list \<Rightarrow> Position list \<Rightarrow> Outcome" where
  "cmd_record rt tok args positions =
     (if length args < 2 then Exit Usage
      else let currentValueUSD = parseFloat rt (args ! 1) in
        if isNaN currentValueUSD then Exit NotANumber
        else let feesToAddUSD = (if 3 \<le> length args then parseFloat rt (args ! 2) else Fin 0) in
        if 3 \<le> length args \<and> isNaN feesToAddUSD then Exit NotANumber
        else case findActivePosition positions tok of
          None \<Rightarrow> Saved (upsert (initializePosition rt tok currentValueUSD) positions)
        | Some position \<Rightarrow>
            Saved (updateActive tok (claimFeePosition feesToAddUSD (dateNow rt)) positions))"

definition main :: "Runtime \<Rightarrow> string list \<Rightarrow> Position list \<Rightarrow> Outcome" where
  "main rt args file =
     (if length args < 1 then Exit Usage
      else let command = toLowerCase (args ! 0);
               positions = loadPositions file in
        if command = ''list'' then Returned
        else if command = ''closed'' then Returned
        else if command = ''summary'' then Returned
        else if command = ''clean'' then cmd_clean positions
        else if command = ''remove'' then cmd_remove args positions
        else if command = ''reset'' then cmd_reset rt args positions
        else if command = ''claim-fee'' then cmd_claim_fee rt args positions
        else if command = ''add-capital'' then cmd_add_capital rt args positions
        else if command = ''withdraw'' then cmd_withdraw rt args positions
        else if command = ''close'' then cmd_close rt args positions
        else cmd_record rt command args positions)"

text \<open>
  \<^verbatim>\<open>parseFloat\<close> on ASCII text, for use at concrete arguments: leading white space is
  skipped and the longest prefix that is a decimal literal (sign, \<^verbatim>\<open>Infinity\<close> or digits
  with an optional fraction and exponent) is read; with no such prefix the result is NaN.
  The value read is exact.
\<close>

definition isSpace :: "char \<Rightarrow> bool" where
  "isSpace c = (let n = (of_char c :: nat) in n = 32 \<or> (9 \<le> n \<and> n \<le> 13))"

definition isDigit :: "char \<Rightarrow> bool" where
  "isDigit c = (let n = (of_char c :: nat) in 48 \<le> n \<and> n \<le> 57)"

definition digitsVal :: "string \<Rightarrow> nat" where
  "digitsVal ds = foldl (\<lambda>a c. 10 * a + (of_char c - 48)) 0 ds"

definition pow10 :: "int \<Rightarrow> rat" where
  "pow10 e = (if 0 \<le> e then 10 ^ nat e else 1 / 10 ^ nat (- e))"

definition exponentPart :: "string \<Rightarrow> int" where
  "exponentPart r =
     (case r of
        [] \<Rightarrow> 0
      | c # r1 \<Rightarrow>
          if c = CHR ''e'' \<or> c = CHR ''E'' then
            (case r1 of
               [] \<Rightarrow> 0
             | s # r2 \<Rightarrow>
                 if s = CHR ''-'' then - int (digitsVal (takeWhile isDigit r2))
                 else if s = CHR ''+'' then int (digitsVal (takeWhile isDigit r2))
                 else int (digitsVal (takeWhile isDigit r1)))
          else 0)"

definition unsignedLiteral :: "string \<Rightarrow> jsnum" where
  "unsignedLiteral u =
     (if take 8 u = ''Infinity'' then PosInf
      else let whole = takeWhile isDigit u;
               r1 = dropWhile isDigit u;
               hasDot = (r1 \<noteq> [] \<and> hd r1 = CHR ''.'');
               frac = (if hasDot then takeWhile isDigit (tl r1) else []);
               r2 = (if hasDot then dropWhile isDigit (tl r1) else r1)
           in if whole = [] \<and> frac = [] then NaN
              else Fin (of_nat (digitsVal (whole @ frac)) / 10 ^ length frac * pow10 (exponentPart r2)))"

definition parseFloat_dec :: "string \<Rightarrow> jsnum" where
  "parseFloat_dec s =
     (let t = dropWhile isSpace s in
      case t of
        [] \<Rightarrow> NaN
      | c # r \<Rightarrow>
          if c = CHR ''-'' then jneg (unsignedLiteral r)
          else if c = CHR ''+'' then unsignedLiteral r
          else unsignedLiteral t)"

section \<open>Aggregate reporting\<close>

text \<open>
  \<^verbatim>\<open>calculateSummaryStats(positions)\<close>: the ten running variables of the
  \<^verbatim>\<open>forEach\<close> loop form the record \<open>Totals\<close>, \<open>summaryStep\<close> is the loop body, and
  the returned object extends the totals with the rates and the expected value.
\<close>

record Totals =
  totalInvestedUSD :: jsnum
  totalPnlUSD :: jsnum
  winningPositions :: nat
  losingPositions :: nat
  totalWinPnlUSD :: jsnum
  totalLossPnlUSD :: jsnum
  biggestWinUSD :: jsnum
  biggestLossUSD :: jsnum
  biggestWinPercent :: jsnum
  biggestLossPercent :: jsnum

record SummaryStats = Totals +
  winRate :: jsnum
  lossRate :: jsnum
  overallPnlPercentage :: jsnum
  expectedValueUSD :: jsnum

definition initialTotals :: Totals where
  "initialTotals =
     \<lparr> totalInvestedUSD = Fin 0, totalPnlUSD = Fin 0, winningPositions = 0, losingPositions = 0,
       totalWinPnlUSD = Fin 0, totalLossPnlUSD = Fin 0, biggestWinUSD = Fin 0,
       biggestLossUSD = Fin 0, biggestWinPercent = Fin 0, biggestLossPercent = Fin 0 \<rparr>"

definition summaryStep :: "Totals \<Rightarrow> Position \<Rightarrow> Totals" where
  "summaryStep t position =
     (let t1 = t\<lparr> totalInvestedUSD :=
                    jadd (totalInvestedUSD t) (orZero (Position.total_invested_usd position)) \<rparr>;
          pnlUSD = orZero (final_pnl_usd position);
          pnlPercent = orZero (final_pnl_percentage position);
          t2 = t1\<lparr> totalPnlUSD := jadd (totalPnlUSD t1) pnlUSD \<rparr>
      in if jgt pnlUSD (Fin 0) then
           t2\<lparr> winningPositions := winningPositions t2 + 1,
               totalWinPnlUSD := jadd (totalWinPnlUSD t2) pnlUSD,
               biggestWinUSD := (if jgt pnlUSD (biggestWinUSD t2) then pnlUSD else biggestWinUSD t2),
               biggestWinPercent :=
                 (if jgt pnlPercent (biggestWinPercent t2) then pnlPercent else biggestWinPercent t2) \<rparr>
         else if jlt pnlUSD (Fin 0) then
           t2\<lparr> losingPositions := losingPositions t2 + 1,
               totalLossPnlUSD := jadd (totalLossPnlUSD t2) pnlUSD,
               biggestLossUSD := (if jlt pnlUSD (biggestLossUSD t2) then pnlUSD else biggestLossUSD t2),
               biggestLossPercent :=
                 (if jlt pnlPercent (biggestLossPercent t2) then pnlPercent else biggestLossPercent t2) \<rparr>
         else t2)"

definition num :: "nat \<Rightarrow> jsnum" where
  "num n = Fin (of_nat n)"

definition calculateSummaryStats :: "Position list \<Rightarrow> SummaryStats" where
  "calculateSummaryStats positions =
     (let t = foldl summaryStep initialTotals positions;
          totalPositions = length positions;
          winRate = (if 0 < totalPositions
                     then jmul (jdiv (num (winningPositions t)) (num totalPositions)) (Fin 100) else Fin 0);
          lossRate = (if 0 < totalPositions
                      then jmul (jdiv (num (losingPositions t)) (num totalPositions)) (Fin 100) else Fin 0);
          overallPnlPercentage = (if jgt (totalInvestedUSD t) (Fin 0)
                                  then jmul (jdiv (totalPnlUSD t) (totalInvestedUSD t)) (Fin 100) else Fin 0);
          avgWinUSD = (if 0 < winningPositions t
                       then jdiv (totalWinPnlUSD t) (num (winningPositions t)) else Fin 0);
          avgLossUSD = (if 0 < losingPositions t
                        then jdiv (totalLossPnlUSD t) (num (losingPositions t)) else Fin 0);
          winProbability = (if 0 < totalPositions
                            then jdiv (num (winningPositions t)) (num totalPositions) else Fin 0);
          lossProbability = (if 0 < totalPositions
                             then jdiv (num (losingPositions t)) (num totalPositions) else Fin 0);
          expectedValueUSD = jadd (jmul winProbability avgWinUSD) (jmul lossProbability avgLossUSD)
      in Totals.extend t
           \<lparr> winRate = winRate, lossRate = lossRate,
             overallPnlPercentage = overallPnlPercentage,
             expectedValueUSD = expectedValueUSD \<rparr>)"

section \<open>Store invariants\<close>


definition storeInvariant :: "Position list \<Rightarrow> bool" where
  "storeInvariant s =
     (distinct (map pos_id s)
      \<and> distinct (map (\<lambda>p. toLowerCase (token p)) (filter (\<lambda>p. is_closed p \<noteq> Some True) s)))"

section \<open>Concrete inputs\<close>

text \<open>
  A position of token \<^verbatim>\<open>tok\<close> with 200 invested at first, 100 added, 50 withdrawn and
  5 of fees claimed; a run at clock 1000 that reads its numbers with \<open>parseFloat_dec\<close>;
  and a PnL snapshot of 30 percent whose realized amount is nine tenths of the unrealized
  one.
\<close>

definition demo_position :: Position where
  "demo_position =
     \<lparr> pos_id = ''tok_1_a'', token = ''tok'',
       Position.initial_value_usd = Fin 200, fees_claimed_usd = Fin 5,
       created_at = 0, last_updated = 0,
       capital_additions_usd = Some (Fin 100), withdrawn_usd = Some (Fin 50),
       Position.total_invested_usd = Some (Fin 300),
       closed_at = None, exit_value_usd = None, final_pnl_usd = None,
       final_pnl_percentage = None, is_closed = None \<rparr>"

definition demo_runtime :: Runtime where
  "demo_runtime = \<lparr> parseFloat = parseFloat_dec, dateNow = 1000, mathRandom = ''abcdefghi'' \<rparr>"

definition demo_pnl :: PnlData where
  "demo_pnl =
     \<lparr> unrealized_pnl_usd = Fin 20, realized_pnl_usd = Fin 18, total_pnl_usd = Fin 38,
       pnl_percentage = Fin 30, PnlData.initial_value_usd = Fin 100,
       current_value_usd = Fin 130, PnlData.total_invested_usd = Fin 110,
       unrealized_pnl_sol = Fin 0, realized_pnl_sol = Fin 0, total_pnl_sol = Fin 0,
       initial_value_sol = Fin 0, current_value_sol = Fin 0, total_invested_sol = Fin 0 \<rparr>"

section \<open>Properties of the PnL engine\<close>

lemma jgt_simps [simp]:
  "jgt (Fin a) (Fin b) = (b < a)" "\<not> jgt NaN x" "\<not> jgt x NaN"
  by (cases x; simp add: jgt_def)+

text \<open>
  Claim C1. For every position, current value and price, the snapshot holds
  unrealized = current - (invested - withdrawn), realized = withdrawn + fees and
  total = (current + withdrawn + fees) - (initial + additions), where invested is
  initial + additions and a missing \<^verbatim>\<open>capital_additions_usd\<close> or \<^verbatim>\<open>withdrawn_usd\<close>
  counts as 0: a position without the two fields gives the snapshot of the same position
  with both set to 0. The position is an argument only; the computation returns no
  position and so changes none.
\<close>

theorem calculatePnl_formulas:
  "unrealized_pnl_usd (calculatePnl sol p cur) =
     jsub cur (jsub (jadd (Position.initial_value_usd p) (orZero (capital_additions_usd p)))
                    (orZero (withdrawn_usd p)))
   \<and> realized_pnl_usd (calculatePnl sol p cur) = jadd (orZero (withdrawn_usd p)) (fees_claimed_usd p)
   \<and> total_pnl_usd (calculatePnl sol p cur) =
       jsub (jadd (jadd cur (orZero (withdrawn_usd p))) (fees_claimed_usd p))
            (jadd (Position.initial_value_usd p) (orZero (capital_additions_usd p)))
   \<and> PnlData.total_invested_usd (calculatePnl sol p cur) =
       jadd (Position.initial_value_usd p) (orZero (capital_additions_usd p))
   \<and> orZero None = Fin 0
   \<and> calculatePnl sol (p\<lparr>capital_additions_usd := None, withdrawn_usd := None\<rparr>) cur =
       calculatePnl sol (p\<lparr>capital_additions_usd := Some (Fin 0), withdrawn_usd := Some (Fin 0)\<rparr>) cur"
  by (simp add: calculatePnl_def Let_def orZero_def)

text \<open>
  Claim C4. When the invested total of the snapshot is 0 the percentage is exactly 0,
  whatever the current value; when the price is 0 or is NaN, each of the six SOL fields is
  exactly 0. The two guards are the only places where the computation divides.
\<close>

theorem calculatePnl_guards:
  "(PnlData.total_invested_usd (calculatePnl sol p cur) = Fin 0
      \<longrightarrow> pnl_percentage (calculatePnl sol p cur) = Fin 0)
   \<and> (sol = Fin 0 \<or> sol = NaN \<longrightarrow>
        unrealized_pnl_sol (calculatePnl sol p cur) = Fin 0
      \<and> realized_pnl_sol (calculatePnl sol p cur) = Fin 0
      \<and> total_pnl_sol (calculatePnl sol p cur) = Fin 0
      \<and> initial_value_sol (calculatePnl sol p cur) = Fin 0
      \<and> current_value_sol (calculatePnl sol p cur) = Fin 0
      \<and> total_invested_sol (calculatePnl sol p cur) = Fin 0)"
  by (auto simp add: calculatePnl_def Let_def)

theorem calculatePnl_guards_witness:
  "PnlData.total_invested_usd
     (calculatePnl (Fin 0)
        (demo_position\<lparr>Position.initial_value_usd := Fin 0, capital_additions_usd := None\<rparr>)
        (Fin 50)) = Fin 0
   \<and> pnl_percentage
     (calculatePnl (Fin 0)
        (demo_position\<lparr>Position.initial_value_usd := Fin 0, capital_additions_usd := None\<rparr>)
        (Fin 50)) = Fin 0
   \<and> total_pnl_usd
     (calculatePnl (Fin 0)
        (demo_position\<lparr>Position.initial_value_usd := Fin 0, capital_additions_usd := None\<rparr>)
        (Fin 50)) = Fin 105
   \<and> total_pnl_sol
     (calculatePnl (Fin 0)
        (demo_position\<lparr>Position.initial_value_usd := Fin 0, capital_additions_usd := None\<rparr>)
        (Fin 50)) = Fin 0
   \<and> current_value_sol
     (calculatePnl (Fin 0)
        (demo_position\<lparr>Position.initial_value_usd := Fin 0, capital_additions_usd := None\<rparr>)
        (Fin 50)) = Fin 0"
  using calculatePnl_guards
    [of "Fin 0" "demo_position\<lparr>Position.initial_value_usd := Fin 0, capital_additions_usd := None\<rparr>"
        "Fin 50"]
  by (simp add: calculatePnl_def Let_def demo_position_def orZero_def jsub_def)

section \<open>Properties of the suggestion engine\<close>

text \<open>
  Claim C5. The rules are tried in order and the first that matches decides. Whenever the
  unrealized PnL is above 10, realized / unrealized is above 0.8 and the percentage is at
  least 25, the suggestion is the fee-risk one: TAKE_PROFIT with HIGH confidence and the
  reason that prints the fee ratio, which differs from the reason of the percentage rule.
  The fee-risk suggestion is returned exactly when the unrealized PnL is above 10 and the
  quotient is above 0.8: with an unrealized PnL of 10 or less the quotient plays no part
  and the result is the one for an unrealized PnL of 0. When the fee-risk rule does not
  match, each later rule decides exactly when none before it matches: the percentage
  TAKE_PROFIT, REDUCE, STOP_LOSS, the moderate-loss pair by age, the break-even pair by
  realized PnL, the moderate-profit HOLD, and the default HOLD.
\<close>

theorem fee_risk_rule_first:
  "(jgt (unrealized_pnl_usd d) (Fin 10)
      \<and> jgt (jdiv (realized_pnl_usd d) (unrealized_pnl_usd d)) (Fin (4 / 5))
      \<and> jge (pnl_percentage d) (Fin 25)
    \<longrightarrow> generateSuggestion toFixed now p d =
           \<lparr> action = TAKE_PROFIT,
             reason = ''High fees earned (''
               @ toFixed (jmul (jdiv (realized_pnl_usd d) (unrealized_pnl_usd d)) (Fin 100)) 0
               @ ''% of unrealized gains). Secure profits before market turns.'',
             confidence = HIGH \<rparr>
       \<and> reason (generateSuggestion toFixed now p d) \<noteq>
           ''Excellent '' @ toFixed (pnl_percentage d) 1
             @ ''% return! Consider taking partial profits to secure gains.''
       \<and> jgt (unrealized_pnl_usd d) (Fin 0))
   \<and> (generateSuggestion toFixed now p d =
           \<lparr> action = TAKE_PROFIT,
             reason = ''High fees earned (''
               @ toFixed (jmul (jdiv (realized_pnl_usd d) (unrealized_pnl_usd d)) (Fin 100)) 0
               @ ''% of unrealized gains). Secure profits before market turns.'',
             confidence = HIGH \<rparr>
        \<longleftrightarrow> jgt (unrealized_pnl_usd d) (Fin 10)
            \<and> jgt (jdiv (realized_pnl_usd d) (unrealized_pnl_usd d)) (Fin (4 / 5)))
   \<and> (\<not> jgt (unrealized_pnl_usd d) (Fin 10)
        \<longrightarrow> generateSuggestion toFixed now p d =
            generateSuggestion toFixed now p (d\<lparr>unrealized_pnl_usd := Fin 0\<rparr>))
   \<and> (\<not> (jgt (unrealized_pnl_usd d) (Fin 10)
           \<and> jgt (jdiv (realized_pnl_usd d) (unrealized_pnl_usd d)) (Fin (4 / 5)))
        \<and> jge (pnl_percentage d) (Fin 25)
        \<longrightarrow> generateSuggestion toFixed now p d =
           \<lparr> action = TAKE_PROFIT,
             reason = ''Excellent '' @ toFixed (pnl_percentage d) 1
               @ ''% return! Consider taking partial profits to secure gains.'',
             confidence = HIGH \<rparr>)
   \<and> (\<not> (jgt (unrealized_pnl_usd d) (Fin 10)
           \<and> jgt (jdiv (realized_pnl_usd d) (unrealized_pnl_usd d)) (Fin (4 / 5)))
        \<and> \<not> jge (pnl_percentage d) (Fin 25) \<and> jge (pnl_percentage d) (Fin 15)
        \<longrightarrow> generateSuggestion toFixed now p d =
           \<lparr> action = REDUCE,
             reason = ''Strong '' @ toFixed (pnl_percentage d) 1
               @ ''% profit. Consider reducing position size to lock in gains while maintaining exposure.'',
             confidence = MEDIUM \<rparr>)
   \<and> (\<not> (jgt (unrealized_pnl_usd d) (Fin 10)
           \<and> jgt (jdiv (realized_pnl_usd d) (unrealized_pnl_usd d)) (Fin (4 / 5)))
        \<and> \<not> jge (pnl_percentage d) (Fin 25) \<and> \<not> jge (pnl_percentage d) (Fin 15)
        \<and> jle (pnl_percentage d) (Fin (- 20))
        \<longrightarrow> generateSuggestion toFixed now p d =
           \<lparr> action = STOP_LOSS,
             reason = ''Position down '' @ toFixed (jabs (pnl_percentage d)) 1
               @ ''%. Consider cutting losses to preserve capital.'',
             confidence = HIGH \<rparr>)
   \<and> (\<not> (jgt (unrealized_pnl_usd d) (Fin 10)
           \<and> jgt (jdiv (realized_pnl_usd d) (unrealized_pnl_usd d)) (Fin (4 / 5)))
        \<and> \<not> jge (pnl_percentage d) (Fin 25) \<and> \<not> jge (pnl_percentage d) (Fin 15)
        \<and> \<not> jle (pnl_percentage d) (Fin (- 20))
        \<and> jle (pnl_percentage d) (Fin (- 10))
        \<longrightarrow> generateSuggestion toFixed now p d =
           (if 30 < (now - created_at p) div 86400000
            then \<lparr> action = REDUCE,
                   reason = ''Position down '' @ toFixed (jabs (pnl_percentage d)) 1 @ ''% for ''
                     @ show_int ((now - created_at p) div 86400000)
                     @ '' days. Consider reducing exposure or reevaluating thesis.'',
                   confidence = MEDIUM \<rparr>
            else \<lparr> action = HOLD,
                   reason = ''Down '' @ toFixed (jabs (pnl_percentage d)) 1
                     @ ''% but position is recent ('' @ show_int ((now - created_at p) div 86400000)
                     @ '' days). Monitor closely.'',
                   confidence = LOW \<rparr>))
   \<and> (\<not> (jgt (unrealized_pnl_usd d) (Fin 10)
           \<and> jgt (jdiv (realized_pnl_usd d) (unrealized_pnl_usd d)) (Fin (4 / 5)))
        \<and> \<not> jge (pnl_percentage d) (Fin 25) \<and> \<not> jge (pnl_percentage d) (Fin 15)
        \<and> \<not> jle (pnl_percentage d) (Fin (- 20))
        \<and> \<not> jle (pnl_percentage d) (Fin (- 10))
        \<and> jge (pnl_percentage d) (Fin 0) \<and> jlt (pnl_percentage d) (Fin 5)
        \<longrightarrow> generateSuggestion toFixed now p d =
           (if jgt (realized_pnl_usd d) (Fin 0)
            then \<lparr> action = TOP_UP,
                   reason = ''Near breakeven with $'' @ toFixed (realized_pnl_usd d) 2
                     @ '' in fees earned. Position showing promise - consider increasing.'',
                   confidence = MEDIUM \<rparr>
            else \<lparr> action = HOLD,
                   reason = ''Position near breakeven. Monitor for clear direction before making changes.'',
                   confidence = LOW \<rparr>))
   \<and> (\<not> (jgt (unrealized_pnl_usd d) (Fin 10)
           \<and> jgt (jdiv (realized_pnl_usd d) (unrealized_pnl_usd d)) (Fin (4 / 5)))
        \<and> \<not> jge (pnl_percentage d) (Fin 25) \<and> \<not> jge (pnl_percentage d) (Fin 15)
        \<and> \<not> jle (pnl_percentage d) (Fin (- 20))
        \<and> \<not> jle (pnl_percentage d) (Fin (- 10))
        \<and> \<not> (jge (pnl_percentage d) (Fin 0) \<and> jlt (pnl_percentage d) (Fin 5))
        \<and> jge (pnl_percentage d) (Fin 5) \<and> jlt (pnl_percentage d) (Fin 15)
        \<longrightarrow> generateSuggestion toFixed now p d =
           \<lparr> action = HOLD,
             reason = ''Good '' @ toFixed (pnl_percentage d) 1
               @ ''% profit with momentum. Hold position and monitor for further gains.'',
             confidence = MEDIUM \<rparr>)
   \<and> (\<not> (jgt (unrealized_pnl_usd d) (Fin 10)
           \<and> jgt (jdiv (realized_pnl_usd d) (unrealized_pnl_usd d)) (Fin (4 / 5)))
        \<and> \<not> jge (pnl_percentage d) (Fin 25) \<and> \<not> jge (pnl_percentage d) (Fin 15)
        \<and> \<not> jle (pnl_percentage d) (Fin (- 20))
        \<and> \<not> jle (pnl_percentage d) (Fin (- 10))
        \<and> \<not> (jge (pnl_percentage d) (Fin 0) \<and> jlt (pnl_percentage d) (Fin 5))
        \<and> \<not> (jge (pnl_percentage d) (Fin 5) \<and> jlt (pnl_percentage d) (Fin 15))
        \<longrightarrow> generateSuggestion toFixed now p d =
           \<lparr> action = HOLD,
             reason = ''Position performing as expected. Continue monitoring market conditions.'',
             confidence = LOW \<rparr>)"
proof -
  note defs = generateSuggestion_def Let_def THRESHOLDS_HIGH_FEES_RATIO_def THRESHOLDS_TAKE_PROFIT_def
    THRESHOLDS_STRONG_PROFIT_def THRESHOLDS_STOP_LOSS_def THRESHOLDS_MODERATE_LOSS_def
    THRESHOLDS_BREAK_EVEN_def THRESHOLDS_MODERATE_PROFIT_def
  have pos: "jgt (unrealized_pnl_usd d) (Fin 10) \<Longrightarrow> jgt (unrealized_pnl_usd d) (Fin 0)"
    by (cases "unrealized_pnl_usd d") (simp_all add: jgt_def)
  have a: "jgt (unrealized_pnl_usd d) (Fin 10)
      \<and> jgt (jdiv (realized_pnl_usd d) (unrealized_pnl_usd d)) (Fin (4 / 5))
      \<and> jge (pnl_percentage d) (Fin 25)
    \<longrightarrow> generateSuggestion toFixed now p d =
           \<lparr> action = TAKE_PROFIT,
             reason = ''High fees earned (''
               @ toFixed (jmul (jdiv (realized_pnl_usd d) (unrealized_pnl_usd d)) (Fin 100)) 0
               @ ''% of unrealized gains). Secure profits before market turns.'',
             confidence = HIGH \<rparr>
       \<and> reason (generateSuggestion toFixed now p d) \<noteq>
           ''Excellent '' @ toFixed (pnl_percentage d) 1
             @ ''% return! Consider taking partial profits to secure gains.''
       \<and> jgt (unrealized_pnl_usd d) (Fin 0)"
    using pos by (simp add: defs)
  have b: "generateSuggestion toFixed now p d =
           \<lparr> action = TAKE_PROFIT,
             reason = ''High fees earned (''
               @ toFixed (jmul (jdiv (realized_pnl_usd d) (unrealized_pnl_usd d)) (Fin 100)) 0
               @ ''% of unrealized gains). Secure profits before market turns.'',
             confidence = HIGH \<rparr>
        \<longleftrightarrow> jgt (unrealized_pnl_usd d) (Fin 10)
            \<and> jgt (jdiv (realized_pnl_usd d) (unrealized_pnl_usd d)) (Fin (4 / 5))"
    by (simp add: defs)
  have c: "\<not> jgt (unrealized_pnl_usd d) (Fin 10)
        \<longrightarrow> generateSuggestion toFixed now p d =
            generateSuggestion toFixed now p (d\<lparr>unrealized_pnl_usd := Fin 0\<rparr>)"
    by (simp add: defs)
  have e: "\<not> (jgt (unrealized_pnl_usd d) (Fin 10)
           \<and> jgt (jdiv (realized_pnl_usd d) (unrealized_pnl_usd d)) (Fin (4 / 5)))
        \<and> jge (pnl_percentage d) (Fin 25)
        \<longrightarrow> generateSuggestion toFixed now p d =
           \<lparr> action = TAKE_PROFIT,
             reason = ''Excellent '' @ toFixed (pnl_percentage d) 1
               @ ''% return! Consider taking partial profits to secure gains.'',
             confidence = HIGH \<rparr>"
    by (auto simp: defs)
  have f: "\<not> (jgt (unrealized_pnl_usd d) (Fin 10)
           \<and> jgt (jdiv (realized_pnl_usd d) (unrealized_pnl_usd d)) (Fin (4 / 5)))
        \<and> \<not> jge (pnl_percentage d) (Fin 25) \<and> jge (pnl_percentage d) (Fin 15)
        \<longrightarrow> generateSuggestion toFixed now p d =
           \<lparr> action = REDUCE,
             reason = ''Strong '' @ toFixed (pnl_percentage d) 1
               @ ''% profit. Consider reducing position size to lock in gains while maintaining exposure.'',
             confidence = MEDIUM \<rparr>"
    by (auto simp: defs)
  have g: "\<not> (jgt (unrealized_pnl_usd d) (Fin 10)
           \<and> jgt (jdiv (realized_pnl_usd d) (unrealized_pnl_usd d)) (Fin (4 / 5)))
        \<and> \<not> jge (pnl_percentage d) (Fin 25) \<and> \<not> jge (pnl_percentage d) (Fin 15)
        \<and> jle (pnl_percentage d) (Fin (- 20))
        \<longrightarrow> generateSuggestion toFixed now p d =
           \<lparr> action = STOP_LOSS,
             reason = ''Position down '' @ toFixed (jabs (pnl_percentage d)) 1
               @ ''%. Consider cutting losses to preserve capital.'',
             confidence = HIGH \<rparr>"
    by (auto simp: defs)
  have h5: "\<not> (jgt (unrealized_pnl_usd d) (Fin 10)
           \<and> jgt (jdiv (realized_pnl_usd d) (unrealized_pnl_usd d)) (Fin (4 / 5)))
        \<and> \<not> jge (pnl_percentage d) (Fin 25) \<and> \<not> jge (pnl_percentage d) (Fin 15)
        \<and> \<not> jle (pnl_percentage d) (Fin (- 20))
        \<and> jle (pnl_percentage d) (Fin (- 10))
        \<longrightarrow> generateSuggestion toFixed now p d =
           (if 30 < (now - created_at p) div 86400000
            then \<lparr> action = REDUCE,
                   reason = ''Position down '' @ toFixed (jabs (pnl_percentage d)) 1 @ ''% for ''
                     @ show_int ((now - created_at p) div 86400000)
                     @ '' days. Consider reducing exposure or reevaluating thesis.'',
                   confidence = MEDIUM \<rparr>
            else \<lparr> action = HOLD,
                   reason = ''Down '' @ toFixed (jabs (pnl_percentage d)) 1
                     @ ''% but position is recent ('' @ show_int ((now - created_at p) div 86400000)
                     @ '' days). Monitor closely.'',
                   confidence = LOW \<rparr>)"
    by (auto simp: defs)
  have h6: "\<not> (jgt (unrealized_pnl_usd d) (Fin 10)
           \<and> jgt (jdiv (realized_pnl_usd d) (unrealized_pnl_usd d)) (Fin (4 / 5)))
        \<and> \<not> jge (pnl_percentage d) (Fin 25) \<and> \<not> jge (pnl_percentage d) (Fin 15)
        \<and> \<not> jle (pnl_percentage d) (Fin (- 20))
        \<and> \<not> jle (pnl_percentage d) (Fin (- 10))
        \<and> jge (pnl_percentage d) (Fin 0) \<and> jlt (pnl_percentage d) (Fin 5)
        \<longrightarrow> generateSuggestion toFixed now p d =
           (if jgt (realized_pnl_usd d) (Fin 0)
            then \<lparr> action = TOP_UP,
                   reason = ''Near breakeven with $'' @ toFixed (realized_pnl_usd d) 2
                     @ '' in fees earned. Position showing promise - consider increasing.'',
                   confidence = MEDIUM \<rparr>
            else \<lparr> action = HOLD,
                   reason = ''Position near breakeven. Monitor for clear direction before making changes.'',
                   confidence = LOW \<rparr>)"
    by (auto simp: defs)
  have h7: "\<not> (jgt (unrealized_pnl_usd d) (Fin 10)
           \<and> jgt (jdiv (realized_pnl_usd d) (unrealized_pnl_usd d)) (Fin (4 / 5)))
        \<and> \<not> jge (pnl_percentage d) (Fin 25) \<and> \<not> jge (pnl_percentage d) (Fin 15)
        \<and> \<not> jle (pnl_percentage d) (Fin (- 20))
        \<and> \<not> jle (pnl_percentage d) (Fin (- 10))
        \<and> \<not> (jge (pnl_percentage d) (Fin 0) \<and> jlt (pnl_percentage d) (Fin 5))
        \<and> jge (pnl_percentage d) (Fin 5) \<and> jlt (pnl_percentage d) (Fin 15)
        \<longrightarrow> generateSuggestion toFixed now p d =
           \<lparr> action = HOLD,
             reason = ''Good '' @ toFixed (pnl_percentage d) 1
               @ ''% profit with momentum. Hold position and monitor for further gains.'',
             confidence = MEDIUM \<rparr>"
    by (auto simp: defs)
  have h8: "\<not> (jgt (unrealized_pnl_usd d) (Fin 10)
           \<and> jgt (jdiv (realized_pnl_usd d) (unrealized_pnl_usd d)) (Fin (4 / 5)))
        \<and> \<not> jge (pnl_percentage d) (Fin 25) \<and> \<not> jge (pnl_percentage d) (Fin 15)
        \<and> \<not> jle (pnl_percentage d) (Fin (- 20))
        \<and> \<not> jle (pnl_percentage d) (Fin (- 10))
        \<and> \<not> (jge (pnl_percentage d) (Fin 0) \<and> jlt (pnl_percentage d) (Fin 5))
        \<and> \<not> (jge (pnl_percentage d) (Fin 5) \<and> jlt (pnl_percentage d) (Fin 15))
        \<longrightarrow> generateSuggestion toFixed now p d =
           \<lparr> action = HOLD,
             reason = ''Position performing as expected. Continue monitoring market conditions.'',
             confidence = LOW \<rparr>"
    by (auto simp: defs)
  from a b c e f g h5 h6 h7 h8 show ?thesis by blast
qed


theorem fee_risk_rule_first_witness:
  "jgt (unrealized_pnl_usd demo_pnl) (Fin 10)
   \<and> jgt (jdiv (realized_pnl_usd demo_pnl) (unrealized_pnl_usd demo_pnl)) (Fin (4 / 5))
   \<and> jge (pnl_percentage demo_pnl) (Fin 25)
   \<and> generateSuggestion toFixed_dec 1000 demo_position demo_pnl =
       \<lparr> action = TAKE_PROFIT,
         reason = ''High fees earned (90% of unrealized gains). Secure profits before market turns.'',
         confidence = HIGH \<rparr>
   \<and> \<not> jgt (unrealized_pnl_usd (demo_pnl\<lparr>unrealized_pnl_usd := Fin 5\<rparr>)) (Fin 10)
   \<and> jgt (jdiv (realized_pnl_usd (demo_pnl\<lparr>unrealized_pnl_usd := Fin 5\<rparr>))
                (unrealized_pnl_usd (demo_pnl\<lparr>unrealized_pnl_usd := Fin 5\<rparr>))) (Fin (4 / 5))
   \<and> generateSuggestion toFixed_dec 1000 demo_position (demo_pnl\<lparr>unrealized_pnl_usd := Fin 5\<rparr>) =
       \<lparr> action = TAKE_PROFIT,
         reason = ''Excellent 30.0% return! Consider taking partial profits to secure gains.'',
         confidence = HIGH \<rparr>
   \<and> generateSuggestion toFixed_dec 1000 demo_position (demo_pnl\<lparr>unrealized_pnl_usd := Fin 5\<rparr>) =
       generateSuggestion toFixed_dec 1000 demo_position (demo_pnl\<lparr>unrealized_pnl_usd := Fin 0\<rparr>)
   \<and> jgt (jdiv (Fin (- 18)) (Fin (- 20))) (Fin (4 / 5))
   \<and> generateSuggestion toFixed_dec 1000 demo_position
        (demo_pnl\<lparr>unrealized_pnl_usd := Fin (- 20), realized_pnl_usd := Fin (- 18),
                  pnl_percentage := Fin (- 30)\<rparr>) =
       \<lparr> action = STOP_LOSS,
         reason = ''Position down 30.0%. Consider cutting losses to preserve capital.'',
         confidence = HIGH \<rparr>"
proof -
  let ?low = "demo_pnl\<lparr>unrealized_pnl_usd := Fin 5\<rparr>"
  let ?neg = "demo_pnl\<lparr>unrealized_pnl_usd := Fin (- 20), realized_pnl_usd := Fin (- 18),
                  pnl_percentage := Fin (- 30)\<rparr>"
  have a: "jgt (unrealized_pnl_usd demo_pnl) (Fin 10)"
    "jgt (jdiv (realized_pnl_usd demo_pnl) (unrealized_pnl_usd demo_pnl)) (Fin (4 / 5))"
    "jge (pnl_percentage demo_pnl) (Fin 25)"
    by code_simp+
  have t1: "toFixed_dec (jmul (jdiv (realized_pnl_usd demo_pnl) (unrealized_pnl_usd demo_pnl)) (Fin 100)) 0
             = ''90''"
    by code_simp
  have b: "\<not> jgt (unrealized_pnl_usd ?low) (Fin 10)"
    "jgt (jdiv (realized_pnl_usd ?low) (unrealized_pnl_usd ?low)) (Fin (4 / 5))"
    "jge (pnl_percentage ?low) (Fin 25)"
    by code_simp+
  have t2: "toFixed_dec (pnl_percentage ?low) 1 = ''30.0''"
    by code_simp
  have c: "\<not> jgt (unrealized_pnl_usd ?neg) (Fin 10)"
    "jgt (jdiv (Fin (- 18)) (Fin (- 20))) (Fin (4 / 5))"
    "\<not> jge (pnl_percentage ?neg) (Fin 25)" "\<not> jge (pnl_percentage ?neg) (Fin 15)"
    "jle (pnl_percentage ?neg) (Fin (- 20))"
    by code_simp+
  have t3: "toFixed_dec (jabs (pnl_percentage ?neg)) 1 = ''30.0''"
    by code_simp
  note inst = fee_risk_rule_first [where toFixed = toFixed_dec and now = 1000 and p = demo_position]
  from inst [where d = demo_pnl] a
  have 1: "generateSuggestion toFixed_dec 1000 demo_position demo_pnl =
       \<lparr> action = TAKE_PROFIT,
         reason = ''High fees earned (''
           @ toFixed_dec (jmul (jdiv (realized_pnl_usd demo_pnl) (unrealized_pnl_usd demo_pnl)) (Fin 100)) 0
           @ ''% of unrealized gains). Secure profits before market turns.'',
         confidence = HIGH \<rparr>"
    by blast
  from inst [where d = ?low] b
  have 2: "generateSuggestion toFixed_dec 1000 demo_position ?low =
       \<lparr> action = TAKE_PROFIT,
         reason = ''Excellent '' @ toFixed_dec (pnl_percentage ?low) 1
           @ ''% return! Consider taking partial profits to secure gains.'',
         confidence = HIGH \<rparr>"
    and 3: "generateSuggestion toFixed_dec 1000 demo_position ?low =
       generateSuggestion toFixed_dec 1000 demo_position (?low\<lparr>unrealized_pnl_usd := Fin 0\<rparr>)"
    by blast+
  from inst [where d = ?neg] c
  have 4: "generateSuggestion toFixed_dec 1000 demo_position ?neg =
       \<lparr> action = STOP_LOSS,
         reason = ''Position down '' @ toFixed_dec (jabs (pnl_percentage ?neg)) 1
           @ ''%. Consider cutting losses to preserve capital.'',
         confidence = HIGH \<rparr>"
    by blast
  have r1: "generateSuggestion toFixed_dec 1000 demo_position demo_pnl =
       \<lparr> action = TAKE_PROFIT,
         reason = ''High fees earned (90% of unrealized gains). Secure profits before market turns.'',
         confidence = HIGH \<rparr>"
    using 1 unfolding t1 by simp
  have r2: "generateSuggestion toFixed_dec 1000 demo_position ?low =
       \<lparr> action = TAKE_PROFIT,
         reason = ''Excellent 30.0% return! Consider taking partial profits to secure gains.'',
         confidence = HIGH \<rparr>"
    using 2 unfolding t2 by simp
  have r3: "generateSuggestion toFixed_dec 1000 demo_position ?low =
       generateSuggestion toFixed_dec 1000 demo_position (demo_pnl\<lparr>unrealized_pnl_usd := Fin 0\<rparr>)"
    using 3 by simp
  have r4: "generateSuggestion toFixed_dec 1000 demo_position ?neg =
       \<lparr> action = STOP_LOSS,
         reason = ''Position down 30.0%. Consider cutting losses to preserve capital.'',
         confidence = HIGH \<rparr>"
    using 4 unfolding t3 by simp
  from a b(1,2) c(2) r1 r2 r3 r4 show ?thesis
    by blast
qed

section \<open>Properties of the store and the commands\<close>

lemma lower_char_idem: "lower_char (lower_char c) = lower_char c"
  by (simp add: lower_char_def Let_def)

lemma toLowerCase_idem: "toLowerCase (toLowerCase s) = toLowerCase s"
  by (simp add: toLowerCase_def lower_char_idem)

lemma isActiveFor_lower: "isActiveFor (toLowerCase tok) = isActiveFor tok"
  by (rule ext) (simp add: isActiveFor_def toLowerCase_idem)

lemma findActivePosition_lower:
  "findActivePosition positions (toLowerCase tok) = findActivePosition positions tok"
  by (simp add: findActivePosition_def isActiveFor_lower)

lemma updateActive_lower:
  "updateActive (toLowerCase tok) f positions = updateActive tok f positions"
  by (induction positions) (simp_all add: isActiveFor_lower)

lemma find_split:
  "find P xs = Some x \<Longrightarrow> \<exists>bs as. xs = bs @ x # as \<and> (\<forall>b\<in>set bs. \<not> P b) \<and> P x"
proof (induction xs)
  case Nil
  then show ?case by simp
next
  case (Cons y ys)
  show ?case
  proof (cases "P y")
    case True
    with Cons.prems have "x = y" by simp
    with True have "y # ys = [] @ x # ys \<and> (\<forall>b\<in>set []. \<not> P b) \<and> P x" by simp
    then show ?thesis by blast
  next
    case False
    with Cons.prems have "find P ys = Some x" by simp
    from Cons.IH [OF this] obtain bs as where "ys = bs @ x # as" "\<forall>b\<in>set bs. \<not> P b" "P x"
      by blast
    with False have "y # ys = (y # bs) @ x # as \<and> (\<forall>b\<in>set (y # bs). \<not> P b) \<and> P x" by simp
    then show ?thesis by blast
  qed
qed

lemma updateActive_append:
  "(\<forall>b\<in>set bs. \<not> isActiveFor tok b) \<Longrightarrow> isActiveFor tok x \<Longrightarrow>
     updateActive tok f (bs @ x # as) = bs @ f x # as"
  by (induction bs) simp_all

lemma findActive_split:
  assumes "findActivePosition positions tok = Some p"
  shows "\<exists>bs as. positions = bs @ p # as \<and> (\<forall>b\<in>set bs. \<not> isActiveFor tok b) \<and> isActiveFor tok p
           \<and> (\<forall>f. updateActive tok f positions = bs @ f p # as)"
proof -
  from find_split [OF assms [unfolded findActivePosition_def]]
  obtain bs as where s: "positions = bs @ p # as" "\<forall>b\<in>set bs. \<not> isActiveFor tok b" "isActiveFor tok p"
    by blast
  then have "\<forall>f. updateActive tok f positions = bs @ f p # as"
    by (simp add: updateActive_append)
  with s show ?thesis by blast
qed

lemma set_upsert: "set (upsert q s) \<subseteq> insert q (set s)"
  by (induction s) auto

lemma pos_id_fix [simp]: "pos_id (fixTotalInvested p) = pos_id p"
  and token_fix [simp]: "token (fixTotalInvested p) = token p"
  and closed_fix [simp]: "is_closed (fixTotalInvested p) = is_closed p"
  by (simp_all add: fixTotalInvested_def)

lemma upsert_fresh: "pos_id q \<notin> pos_id ` set s \<Longrightarrow> upsert q s = s @ [q]"
  by (induction s) auto

lemma load_fold_distinct:
  "distinct (map pos_id (acc @ entries)) \<Longrightarrow>
     foldl (\<lambda>m pos. upsert (fixTotalInvested pos) m) acc entries = acc @ map fixTotalInvested entries"
proof (induction entries arbitrary: acc)
  case Nil
  then show ?case by simp
next
  case (Cons p ps)
  from Cons.prems have fresh: "pos_id (fixTotalInvested p) \<notin> pos_id ` set acc" by auto
  from Cons.prems have "distinct (map pos_id ((acc @ [fixTotalInvested p]) @ ps))" by auto
  from Cons.IH [OF this] show ?case by (simp add: upsert_fresh [OF fresh])
qed

lemma loadPositions_distinct:
  "distinct (map pos_id entries) \<Longrightarrow> loadPositions entries = map fixTotalInvested entries"
  using load_fold_distinct [of "[]" entries] by (simp add: loadPositions_def)

lemma load_fold_set:
  "set (foldl (\<lambda>m pos. upsert (fixTotalInvested pos) m) acc entries) \<subseteq> set acc \<union> fixTotalInvested ` set entries"
proof (induction entries arbitrary: acc)
  case Nil
  then show ?case by simp
next
  case (Cons p ps)
  have "set (foldl (\<lambda>m pos. upsert (fixTotalInvested pos) m) (upsert (fixTotalInvested p) acc) ps)
          \<subseteq> set (upsert (fixTotalInvested p) acc) \<union> fixTotalInvested ` set ps"
    by (rule Cons.IH)
  with set_upsert [of "fixTotalInvested p" acc] show ?case by auto
qed

lemma set_loadPositions: "set (loadPositions entries) \<subseteq> fixTotalInvested ` set entries"
  using load_fold_set [of "[]" entries] by (simp add: loadPositions_def)

lemma jgt_pos: "jgt e (Fin 0) \<Longrightarrow> \<not> isNaN e \<and> \<not> jle e (Fin 0)"
  by (cases e) (simp_all add: jgt_def jle_def)

lemma main_close:
  "toLowerCase c = ''close'' \<Longrightarrow> main rt (c # rest) entries = cmd_close rt (c # rest) (loadPositions entries)"
  by (simp add: main_def Let_def)

lemma cmd_close_ok:
  assumes "findActivePosition positions tok = Some p"
    and "jgt (parseFloat rt x) (Fin 0)" and "\<not> isNaN (parseFloat rt y)"
  shows "cmd_close rt [c, tok, x, y] positions =
           Saved (updateActive tok
                    (closePosition (parseFloat rt x) (parseFloat rt y) (dateNow rt)) positions)"
  using assms jgt_pos [OF assms(2)]
  by (simp add: cmd_close_def Let_def findActivePosition_lower updateActive_lower)

lemma closePosition_fields:
  "fees_claimed_usd (closePosition exitValue finalFees now p) = jadd (fees_claimed_usd p) finalFees
   \<and> final_pnl_usd (closePosition exitValue finalFees now p) =
       Some (jsub (jadd (jadd exitValue (orZero (withdrawn_usd p))) (jadd (fees_claimed_usd p) finalFees))
                  (jadd (Position.initial_value_usd p) (initMissing (capital_additions_usd p))))
   \<and> final_pnl_percentage (closePosition exitValue finalFees now p) =
       Some (if jgt (jadd (Position.initial_value_usd p) (initMissing (capital_additions_usd p))) (Fin 0)
             then jmul (jdiv (initMissing (final_pnl_usd (closePosition exitValue finalFees now p)))
                             (jadd (Position.initial_value_usd p) (initMissing (capital_additions_usd p))))
                       (Fin 100)
             else Fin 0)
   \<and> is_closed (closePosition exitValue finalFees now p) = Some True
   \<and> closed_at (closePosition exitValue finalFees now p) = Some now
   \<and> exit_value_usd (closePosition exitValue finalFees now p) = Some exitValue"
  by (cases "withdrawn_usd p") (simp_all add: closePosition_def Let_def orZero_def initMissing_def jsub_def)

text \<open>
  Claim C3. The close command on a token with an active position, given a positive exit
  value and a final fee, writes the store in which that position is closed: the final fee
  is added to the fees claimed first, the final PnL is (exit + withdrawn + fees) -
  (initial + additions) with the new fees, the final percentage is that PnL over the
  invested total times 100 (0 when the total is not positive), and the record holds
  \<^verbatim>\<open>is_closed = true\<close>, the closing time and the exit value. Closing at 500 with a final
  fee of 10 from initial 200, additions 100, withdrawn 50 and fees 5 gives fees 15, final
  PnL 265 and final percentage 265 / 300 * 100.
\<close>

theorem close_command_final_pnl:
  assumes "toLowerCase c = ''close''"
    and "findActivePosition (loadPositions entries) tok = Some p"
    and "jgt (parseFloat rt x) (Fin 0)" and "\<not> isNaN (parseFloat rt y)"
  shows "main rt [c, tok, x, y] entries =
           Saved (updateActive tok
                    (closePosition (parseFloat rt x) (parseFloat rt y) (dateNow rt))
                    (loadPositions entries))
       \<and> closePosition (parseFloat rt x) (parseFloat rt y) (dateNow rt) p
           \<in> set (updateActive tok
                    (closePosition (parseFloat rt x) (parseFloat rt y) (dateNow rt))
                    (loadPositions entries))
       \<and> fees_claimed_usd (closePosition (parseFloat rt x) (parseFloat rt y) (dateNow rt) p) =
           jadd (fees_claimed_usd p) (parseFloat rt y)
       \<and> final_pnl_usd (closePosition (parseFloat rt x) (parseFloat rt y) (dateNow rt) p) =
           Some (jsub (jadd (jadd (parseFloat rt x) (orZero (withdrawn_usd p)))
                            (jadd (fees_claimed_usd p) (parseFloat rt y)))
                      (jadd (Position.initial_value_usd p) (initMissing (capital_additions_usd p))))
       \<and> final_pnl_percentage (closePosition (parseFloat rt x) (parseFloat rt y) (dateNow rt) p) =
           Some (if jgt (jadd (Position.initial_value_usd p) (initMissing (capital_additions_usd p))) (Fin 0)
                 then jmul (jdiv (initMissing (final_pnl_usd
                                    (closePosition (parseFloat rt x) (parseFloat rt y) (dateNow rt) p)))
                                 (jadd (Position.initial_value_usd p)
                                       (initMissing (capital_additions_usd p))))
                           (Fin 100)
                 else Fin 0)
       \<and> is_closed (closePosition (parseFloat rt x) (parseFloat rt y) (dateNow rt) p) = Some True
       \<and> closed_at (closePosition (parseFloat rt x) (parseFloat rt y) (dateNow rt) p) = Some (dateNow rt)
       \<and> exit_value_usd (closePosition (parseFloat rt x) (parseFloat rt y) (dateNow rt) p) =
           Some (parseFloat rt x)
       \<and> fees_claimed_usd (closePosition (Fin 500) (Fin 10) now
            (q\<lparr>Position.initial_value_usd := Fin 200, capital_additions_usd := Some (Fin 100),
               withdrawn_usd := Some (Fin 50), fees_claimed_usd := Fin 5\<rparr>)) = Fin 15
       \<and> final_pnl_usd (closePosition (Fin 500) (Fin 10) now
            (q\<lparr>Position.initial_value_usd := Fin 200, capital_additions_usd := Some (Fin 100),
               withdrawn_usd := Some (Fin 50), fees_claimed_usd := Fin 5\<rparr>)) = Some (Fin 265)
       \<and> final_pnl_percentage (closePosition (Fin 500) (Fin 10) now
            (q\<lparr>Position.initial_value_usd := Fin 200, capital_additions_usd := Some (Fin 100),
               withdrawn_usd := Some (Fin 50), fees_claimed_usd := Fin 5\<rparr>))
           = Some (Fin (265 / 300 * 100))"
proof -
  from findActive_split [OF assms(2)] obtain bs as
    where "\<forall>f. updateActive tok f (loadPositions entries) = bs @ f p # as" by blast
  then have mem: "closePosition (parseFloat rt x) (parseFloat rt y) (dateNow rt) p
           \<in> set (updateActive tok
                    (closePosition (parseFloat rt x) (parseFloat rt y) (dateNow rt))
                    (loadPositions entries))"
    by simp
  have run: "main rt [c, tok, x, y] entries =
           Saved (updateActive tok
                    (closePosition (parseFloat rt x) (parseFloat rt y) (dateNow rt))
                    (loadPositions entries))"
    by (simp add: main_close [OF assms(1)] cmd_close_ok [OF assms(2-4)])
  have scenario:
    "fees_claimed_usd (closePosition (Fin 500) (Fin 10) now
            (q\<lparr>Position.initial_value_usd := Fin 200, capital_additions_usd := Some (Fin 100),
               withdrawn_usd := Some (Fin 50), fees_claimed_usd := Fin 5\<rparr>)) = Fin 15"
    "final_pnl_usd (closePosition (Fin 500) (Fin 10) now
            (q\<lparr>Position.initial_value_usd := Fin 200, capital_additions_usd := Some (Fin 100),
               withdrawn_usd := Some (Fin 50), fees_claimed_usd := Fin 5\<rparr>)) = Some (Fin 265)"
    "final_pnl_percentage (closePosition (Fin 500) (Fin 10) now
            (q\<lparr>Position.initial_value_usd := Fin 200, capital_additions_usd := Some (Fin 100),
               withdrawn_usd := Some (Fin 50), fees_claimed_usd := Fin 5\<rparr>))
           = Some (Fin (265 / 300 * 100))"
    by (simp_all add: closePosition_def Let_def orZero_def initMissing_def jsub_def)
  from run mem scenario
    closePosition_fields [of "parseFloat rt x" "parseFloat rt y" "dateNow rt" p]
  show ?thesis by blast
qed

theorem close_command_final_pnl_witness:
  "toLowerCase ''close'' = ''close''
   \<and> findActivePosition (loadPositions [demo_position]) ''tok'' = Some demo_position
   \<and> parseFloat demo_runtime ''500'' = Fin 500 \<and> parseFloat demo_runtime ''10'' = Fin 10
   \<and> main demo_runtime [''close'', ''tok'', ''500'', ''10''] [demo_position] =
       Saved [closePosition (Fin 500) (Fin 10) 1000 demo_position]
   \<and> Position.initial_value_usd demo_position = Fin 200
   \<and> capital_additions_usd demo_position = Some (Fin 100)
   \<and> withdrawn_usd demo_position = Some (Fin 50)
   \<and> fees_claimed_usd demo_position = Fin 5
   \<and> fees_claimed_usd (closePosition (Fin 500) (Fin 10) 1000 demo_position) = Fin 15
   \<and> final_pnl_usd (closePosition (Fin 500) (Fin 10) 1000 demo_position) = Some (Fin 265)
   \<and> final_pnl_percentage (closePosition (Fin 500) (Fin 10) 1000 demo_position)
       = Some (Fin (265 / 300 * 100))
   \<and> is_closed (closePosition (Fin 500) (Fin 10) 1000 demo_position) = Some True
   \<and> closed_at (closePosition (Fin 500) (Fin 10) 1000 demo_position) = Some 1000
   \<and> exit_value_usd (closePosition (Fin 500) (Fin 10) 1000 demo_position) = Some (Fin 500)"
proof -
  have c: "toLowerCase ''close'' = ''close''" by code_simp
  have f: "findActivePosition (loadPositions [demo_position]) ''tok'' = Some demo_position"
    by code_simp
  have x: "parseFloat demo_runtime ''500'' = Fin 500" and y: "parseFloat demo_runtime ''10'' = Fin 10"
    and n: "dateNow demo_runtime = 1000"
    by code_simp+
  have pos: "jgt (parseFloat demo_runtime ''500'') (Fin 0)" "\<not> isNaN (parseFloat demo_runtime ''10'')"
    by (simp_all add: x y)
  have u: "updateActive ''tok'' (closePosition (Fin 500) (Fin 10) 1000) (loadPositions [demo_position])
             = [closePosition (Fin 500) (Fin 10) 1000 demo_position]"
    by code_simp
  have vals: "Position.initial_value_usd demo_position = Fin 200"
    "capital_additions_usd demo_position = Some (Fin 100)"
    "withdrawn_usd demo_position = Some (Fin 50)"
    "fees_claimed_usd demo_position = Fin 5"
    "fees_claimed_usd (closePosition (Fin 500) (Fin 10) 1000 demo_position) = Fin 15"
    "final_pnl_usd (closePosition (Fin 500) (Fin 10) 1000 demo_position) = Some (Fin 265)"
    "final_pnl_percentage (closePosition (Fin 500) (Fin 10) 1000 demo_position)
       = Some (Fin (265 / 300 * 100))"
    by code_simp+
  from close_command_final_pnl [OF c f pos, of 0 demo_position] c f x y n u vals show ?thesis
    by simp
qed

lemma jle_not_NaN: "jle e b \<Longrightarrow> \<not> isNaN e"
  by (simp add: jle_def)

lemma main_reserved:
  "toLowerCase c = ''reset'' \<Longrightarrow> main rt (c # rest) entries = cmd_reset rt (c # rest) (loadPositions entries)"
  "toLowerCase c = ''claim-fee'' \<Longrightarrow> main rt (c # rest) entries = cmd_claim_fee rt (c # rest) (loadPositions entries)"
  "toLowerCase c = ''add-capital'' \<Longrightarrow> main rt (c # rest) entries = cmd_add_capital rt (c # rest) (loadPositions entries)"
  "toLowerCase c = ''withdraw'' \<Longrightarrow> main rt (c # rest) entries = cmd_withdraw rt (c # rest) (loadPositions entries)"
  "toLowerCase c = ''remove'' \<Longrightarrow> main rt (c # rest) entries = cmd_remove (c # rest) (loadPositions entries)"
  "toLowerCase c = ''clean'' \<Longrightarrow> main rt (c # rest) entries = cmd_clean (loadPositions entries)"
  by (simp_all add: main_def Let_def)

lemma main_record:
  "toLowerCase c \<notin> {''list'', ''closed'', ''summary'', ''clean'', ''remove'', ''reset'', ''claim-fee'',
     ''add-capital'', ''withdraw'', ''close''} \<Longrightarrow>
   main rt (c # rest) entries = cmd_record rt (toLowerCase c) (c # rest) (loadPositions entries)"
  by (simp add: main_def Let_def)

lemma storeInvariant_map_fix:
  "storeInvariant (map fixTotalInvested s) = storeInvariant s"
  by (simp add: storeInvariant_def filter_map comp_def)

lemma loadPositions_inv:
  assumes "storeInvariant entries"
  shows "storeInvariant (loadPositions entries)"
proof -
  from assms have "distinct (map pos_id entries)" by (simp add: storeInvariant_def)
  then have "loadPositions entries = map fixTotalInvested entries" by (rule loadPositions_distinct)
  with assms show ?thesis by (simp add: storeInvariant_map_fix)
qed

lemma distinct_map_filter2:
  "distinct (map f (filter A xs)) \<Longrightarrow> distinct (map f (filter (\<lambda>x. P x \<and> A x) xs))"
  by (induction xs) (auto split: if_splits)

lemma filter_inv: "storeInvariant s \<Longrightarrow> storeInvariant (filter P s)"
  by (simp add: storeInvariant_def distinct_map_filter distinct_map_filter2)

lemma updateActive_inv:
  assumes "storeInvariant s" and "findActivePosition s tok = Some p"
    and "pos_id (g p) = pos_id p" and "token (g p) = token p"
  shows "storeInvariant (updateActive tok g s)"
proof -
  from findActive_split [OF assms(2)] obtain bs as
    where s: "s = bs @ p # as" and act: "isActiveFor tok p"
      and u: "updateActive tok g s = bs @ g p # as"
    by blast
  from act have "is_closed p \<noteq> Some True" by (simp add: isActiveFor_def)
  with assms(1,3,4) show ?thesis
    unfolding u unfolding s by (auto simp: storeInvariant_def)
qed

lemma ids_upsert: "pos_id ` set (upsert q s) = insert (pos_id q) (pos_id ` set s)"
  by (induction s) auto

lemma distinct_ids_upsert: "distinct (map pos_id s) \<Longrightarrow> distinct (map pos_id (upsert q s))"
proof (induction s)
  case Nil
  then show ?case by simp
next
  case (Cons x xs)
  show ?case
  proof (cases "pos_id x = pos_id q")
    case True
    with Cons.prems show ?thesis by simp
  next
    case False
    from Cons.prems have "pos_id x \<notin> pos_id ` set xs" and "distinct (map pos_id xs)" by auto
    with False Cons.IH ids_upsert [of q xs] show ?thesis by auto
  qed
qed

lemma active_tokens_upsert:
  assumes "distinct (map f (filter A s))" and "\<forall>p\<in>set s. A p \<longrightarrow> f p \<noteq> f q"
  shows "distinct (map f (filter A (upsert q s)))"
  using assms
proof (induction s)
  case Nil
  then show ?case by simp
next
  case (Cons x xs)
  show ?case
  proof (cases "pos_id x = pos_id q")
    case True
    with Cons.prems show ?thesis by (auto split: if_splits)
  next
    case False
    from Cons.prems have ih: "distinct (map f (filter A (upsert q xs)))"
      by (intro Cons.IH) (auto split: if_splits)
    have sub: "set (upsert q xs) \<subseteq> insert q (set xs)" by (rule set_upsert)
    show ?thesis
    proof (cases "A x")
      case True
      with Cons.prems have "f x \<noteq> f q" and "f x \<notin> f ` set (filter A xs)" by auto
      with sub have "f x \<notin> f ` set (filter A (upsert q xs))" by auto
      with False True ih show ?thesis by simp
    next
      case F: False
      with False ih show ?thesis by simp
    qed
  qed
qed

lemma upsert_inv:
  assumes "storeInvariant s"
    and "\<forall>p\<in>set s. is_closed p \<noteq> Some True \<longrightarrow> toLowerCase (token p) \<noteq> toLowerCase (token q)"
  shows "storeInvariant (upsert q s)"
  using assms distinct_ids_upsert [of s q]
    active_tokens_upsert [of "\<lambda>p. toLowerCase (token p)" "\<lambda>p. is_closed p \<noteq> Some True" s q]
  by (simp add: storeInvariant_def)

lemma find_None_no_active:
  "findActivePosition s tok = None \<Longrightarrow>
     \<forall>p\<in>set s. is_closed p \<noteq> Some True \<longrightarrow> toLowerCase (token p) \<noteq> toLowerCase tok"
  by (auto simp: findActivePosition_def find_None_iff isActiveFor_def)

lemma delete_found_no_active:
  assumes "storeInvariant s" and "findActivePosition s tok = Some old"
  shows "\<forall>p\<in>set (deleteKey (pos_id old) s).
           is_closed p \<noteq> Some True \<longrightarrow> toLowerCase (token p) \<noteq> toLowerCase tok"
proof (intro ballI impI)
  fix p assume p: "p \<in> set (deleteKey (pos_id old) s)" and a: "is_closed p \<noteq> Some True"
  from findActive_split [OF assms(2)] obtain bs as
    where s: "s = bs @ old # as" and act: "isActiveFor tok old" by blast
  from act have oa: "is_closed old \<noteq> Some True" "toLowerCase (token old) = toLowerCase tok"
    by (simp_all add: isActiveFor_def)
  from s have old_in: "old \<in> set (filter (\<lambda>p. is_closed p \<noteq> Some True) s)" using oa by simp
  from p have p_in: "p \<in> set (filter (\<lambda>p. is_closed p \<noteq> Some True) s)" and ne: "pos_id p \<noteq> pos_id old"
    using a by (auto simp: deleteKey_def)
  from assms(1) have "inj_on (\<lambda>p. toLowerCase (token p)) (set (filter (\<lambda>p. is_closed p \<noteq> Some True) s))"
    by (simp add: storeInvariant_def distinct_map)
  with old_in p_in ne show "toLowerCase (token p) \<noteq> toLowerCase tok"
    unfolding oa(2) [symmetric] by (auto dest: inj_onD)
qed

lemma body_fields [simp]:
  "pos_id (claimFeePosition a n p) = pos_id p" "token (claimFeePosition a n p) = token p"
  "pos_id (addCapitalPosition a n p) = pos_id p" "token (addCapitalPosition a n p) = token p"
  "pos_id (withdrawPosition a n p) = pos_id p" "token (withdrawPosition a n p) = token p"
  "pos_id (closePosition e a n p) = pos_id p" "token (closePosition e a n p) = token p"
  "token (initializePosition rt tok v) = tok" "is_closed (initializePosition rt tok v) = None"
  by (simp_all add: claimFeePosition_def addCapitalPosition_def withdrawPosition_def
      closePosition_def initializePosition_def Let_def)

lemma cmd_clean_inv: "storeInvariant ps \<Longrightarrow> cmd_clean ps = Saved s \<Longrightarrow> storeInvariant s"
  by (auto simp: cmd_clean_def filter_inv)

lemma cmd_remove_inv: "storeInvariant ps \<Longrightarrow> cmd_remove args ps = Saved s \<Longrightarrow> storeInvariant s"
  by (auto simp: cmd_remove_def Let_def deleteKey_def filter_inv split: if_splits option.splits)

lemma cmd_reset_inv:
  assumes "storeInvariant ps" and "cmd_reset rt args ps = Saved s"
  shows "storeInvariant s"
proof -
  from assms(2) obtain old
    where f: "findActivePosition ps (toLowerCase (args ! 1)) = Some old"
      and s: "s = upsert (initializePosition rt (toLowerCase (args ! 1)) (parseFloat rt (args ! 2)))
                    (deleteKey (pos_id old) ps)"
    by (auto simp: cmd_reset_def Let_def split: if_splits option.splits)
  have "storeInvariant (deleteKey (pos_id old) ps)"
    using assms(1) by (simp add: deleteKey_def filter_inv)
  moreover from delete_found_no_active [OF assms(1) f]
  have "\<forall>p\<in>set (deleteKey (pos_id old) ps). is_closed p \<noteq> Some True \<longrightarrow>
          toLowerCase (token p) \<noteq>
          toLowerCase (token (initializePosition rt (toLowerCase (args ! 1)) (parseFloat rt (args ! 2))))"
    by simp
  ultimately show ?thesis unfolding s by (rule upsert_inv)
qed

lemma cmd_claim_fee_inv:
  "storeInvariant ps \<Longrightarrow> cmd_claim_fee rt args ps = Saved s \<Longrightarrow> storeInvariant s"
  by (auto simp: cmd_claim_fee_def Let_def split: if_splits option.splits intro!: updateActive_inv)

lemma cmd_add_capital_inv:
  "storeInvariant ps \<Longrightarrow> cmd_add_capital rt args ps = Saved s \<Longrightarrow> storeInvariant s"
  by (auto simp: cmd_add_capital_def Let_def split: if_splits option.splits intro!: updateActive_inv)

lemma cmd_withdraw_inv:
  "storeInvariant ps \<Longrightarrow> cmd_withdraw rt args ps = Saved s \<Longrightarrow> storeInvariant s"
  by (auto simp: cmd_withdraw_def Let_def split: if_splits option.splits intro!: updateActive_inv)

lemma cmd_close_inv:
  "storeInvariant ps \<Longrightarrow> cmd_close rt args ps = Saved s \<Longrightarrow> storeInvariant s"
  by (auto simp: cmd_close_def Let_def split: if_splits option.splits intro!: updateActive_inv)

lemma cmd_record_inv:
  assumes "storeInvariant ps" and "cmd_record rt tok args ps = Saved s"
  shows "storeInvariant s"
proof (cases "findActivePosition ps tok")
  case None
  with assms(2) have s: "s = upsert (initializePosition rt tok (parseFloat rt (args ! 1))) ps"
    by (auto simp: cmd_record_def Let_def split: if_splits)
  from find_None_no_active [OF None]
  have "\<forall>p\<in>set ps. is_closed p \<noteq> Some True \<longrightarrow>
          toLowerCase (token p) \<noteq> toLowerCase (token (initializePosition rt tok (parseFloat rt (args ! 1))))"
    by simp
  with assms(1) show ?thesis unfolding s by (rule upsert_inv)
next
  case (Some p)
  with assms show ?thesis
    by (auto simp: cmd_record_def Let_def split: if_splits intro!: updateActive_inv)
qed

lemma main_inv:
  assumes "storeInvariant entries" and "main rt args entries = Saved s"
  shows "storeInvariant s"
proof -
  note inv = loadPositions_inv [OF assms(1)]
  from assms(2) consider
      "cmd_clean (loadPositions entries) = Saved s"
    | "cmd_remove args (loadPositions entries) = Saved s"
    | "cmd_reset rt args (loadPositions entries) = Saved s"
    | "cmd_claim_fee rt args (loadPositions entries) = Saved s"
    | "cmd_add_capital rt args (loadPositions entries) = Saved s"
    | "cmd_withdraw rt args (loadPositions entries) = Saved s"
    | "cmd_close rt args (loadPositions entries) = Saved s"
    | "cmd_record rt (toLowerCase (args ! 0)) args (loadPositions entries) = Saved s"
    by (auto simp: main_def Let_def split: if_splits)
  then show ?thesis
    using inv
    by cases
      (blast intro: cmd_clean_inv cmd_remove_inv cmd_reset_inv cmd_claim_fee_inv cmd_add_capital_inv
        cmd_withdraw_inv cmd_close_inv cmd_record_inv)+
qed



lemma jadd_zero [simp]: "jadd v (Fin 0) = v"
  by (cases v) simp_all












lemma all_closed_no_active:
  assumes "\<forall>q\<in>set entries. toLowerCase (token q) = toLowerCase tok \<longrightarrow> is_closed q = Some True"
  shows "findActivePosition (loadPositions entries) tok = None"
proof -
  have "\<not> isActiveFor tok q" if "q \<in> set (loadPositions entries)" for q
  proof -
    from that set_loadPositions [of entries] obtain q0
      where "q0 \<in> set entries" and "q = fixTotalInvested q0" by blast
    with assms show ?thesis by (auto simp: isActiveFor_def)
  qed
  then show ?thesis by (auto simp: findActivePosition_def find_None_iff)
qed

lemma no_active_exits:
  assumes "findActivePosition positions tok = None"
  shows "\<exists>e. cmd_add_capital rt (c # tok # rest) positions = Exit e"
    and "\<exists>e. cmd_withdraw rt (c # tok # rest) positions = Exit e"
    and "\<exists>e. cmd_claim_fee rt (c # tok # rest) positions = Exit e"
    and "\<exists>e. cmd_close rt (c # tok # rest) positions = Exit e"
  using assms
  by (simp_all add: cmd_add_capital_def cmd_withdraw_def cmd_claim_fee_def cmd_close_def Let_def
      findActivePosition_lower)

lemma no_active_not_found:
  assumes "findActivePosition positions tok = None" and "jgt (parseFloat rt x) (Fin 0)"
    and "ys = [] \<or> \<not> isNaN (parseFloat rt (hd ys))"
  shows "cmd_add_capital rt (c # tok # x # ys) positions = Exit NotFound"
    and "cmd_withdraw rt (c # tok # x # ys) positions = Exit NotFound"
    and "cmd_claim_fee rt (c # tok # x # ys) positions = Exit NotFound"
    and "cmd_close rt (c # tok # x # ys) positions = Exit NotFound"
  using assms jgt_pos [OF assms(2)]
  by (cases ys; simp add: cmd_add_capital_def cmd_withdraw_def cmd_claim_fee_def cmd_close_def Let_def
      findActivePosition_lower)+

text \<open>
  Claim C6. The active-position lookup never returns a closed record. When every position
  of a token is closed, each of add-capital, withdraw, claim-fee and close on that token
  exits without writing the store, whatever the other arguments, and with the not-found
  failure when the numbers given are valid. Every write keeps the store invariant: ids
  stay distinct and no token has two active positions.
\<close>

theorem closed_positions_frozen:
  "(findActivePosition positions tok = Some p \<longrightarrow> is_closed p \<noteq> Some True)
   \<and> ((\<forall>q\<in>set entries. toLowerCase (token q) = toLowerCase tok \<longrightarrow> is_closed q = Some True)
        \<and> toLowerCase c \<in> {''add-capital'', ''withdraw'', ''claim-fee'', ''close''}
      \<longrightarrow> (\<exists>e. main rt (c # tok # rest) entries = Exit e)
          \<and> (jgt (parseFloat rt x) (Fin 0) \<and> (ys = [] \<or> \<not> isNaN (parseFloat rt (hd ys)))
               \<longrightarrow> main rt (c # tok # x # ys) entries = Exit NotFound))
   \<and> (storeInvariant entries \<and> main rt args entries = Saved s \<longrightarrow> storeInvariant s)"
proof (intro conjI impI)
  assume "findActivePosition positions tok = Some p"
  from findActive_split [OF this] show "is_closed p \<noteq> Some True"
    by (auto simp: isActiveFor_def)
next
  assume h: "(\<forall>q\<in>set entries. toLowerCase (token q) = toLowerCase tok \<longrightarrow> is_closed q = Some True)
        \<and> toLowerCase c \<in> {''add-capital'', ''withdraw'', ''claim-fee'', ''close''}"
  then have none: "findActivePosition (loadPositions entries) tok = None"
    by (simp add: all_closed_no_active)
  from h have c: "toLowerCase c = ''add-capital'' \<or> toLowerCase c = ''withdraw''
      \<or> toLowerCase c = ''claim-fee'' \<or> toLowerCase c = ''close''" by simp
  from c show "\<exists>e. main rt (c # tok # rest) entries = Exit e"
    using no_active_exits [OF none, of rt c rest]
    by (auto simp: main_reserved main_close)
  assume "jgt (parseFloat rt x) (Fin 0) \<and> (ys = [] \<or> \<not> isNaN (parseFloat rt (hd ys)))"
  then have x: "jgt (parseFloat rt x) (Fin 0)" and y: "ys = [] \<or> \<not> isNaN (parseFloat rt (hd ys))"
    by simp_all
  from c show "main rt (c # tok # x # ys) entries = Exit NotFound"
    using no_active_not_found [OF none x y, of c]
    by (auto simp: main_reserved main_close)
next
  assume "storeInvariant entries \<and> main rt args entries = Saved s"
  then show "storeInvariant s" using main_inv by blast
qed

theorem closed_positions_frozen_witness:
  "is_closed (closePosition (Fin 500) (Fin 10) 1000 demo_position) = Some True
   \<and> main demo_runtime [''add-capital'', ''tok'', ''100'']
        [closePosition (Fin 500) (Fin 10) 1000 demo_position] = Exit NotFound
   \<and> main demo_runtime [''withdraw'', ''tok'', ''50'']
        [closePosition (Fin 500) (Fin 10) 1000 demo_position] = Exit NotFound
   \<and> main demo_runtime [''claim-fee'', ''tok'', ''5'']
        [closePosition (Fin 500) (Fin 10) 1000 demo_position] = Exit NotFound
   \<and> main demo_runtime [''close'', ''tok'', ''500'', ''10'']
        [closePosition (Fin 500) (Fin 10) 1000 demo_position] = Exit NotFound
   \<and> findActivePosition
        [closePosition (Fin 500) (Fin 10) 1000 demo_position, demo_position\<lparr>pos_id := ''tok_2_b''\<rparr>]
        ''tok'' = Some (demo_position\<lparr>pos_id := ''tok_2_b''\<rparr>)
   \<and> is_closed (demo_position\<lparr>pos_id := ''tok_2_b''\<rparr>) \<noteq> Some True
   \<and> storeInvariant [closePosition (Fin 500) (Fin 10) 1000 demo_position]
   \<and> main demo_runtime [''tok'', ''200''] [closePosition (Fin 500) (Fin 10) 1000 demo_position]
       = Saved [closePosition (Fin 500) (Fin 10) 1000 demo_position,
                initializePosition demo_runtime ''tok'' (Fin 200)]
   \<and> storeInvariant [closePosition (Fin 500) (Fin 10) 1000 demo_position,
                     initializePosition demo_runtime ''tok'' (Fin 200)]"
proof -
  let ?closed = "closePosition (Fin 500) (Fin 10) 1000 demo_position"
  let ?second = "demo_position\<lparr>pos_id := ''tok_2_b''\<rparr>"
  have cl: "is_closed ?closed = Some True"
    by (simp add: closePosition_def Let_def)
  have all: "\<forall>q\<in>set [?closed]. toLowerCase (token q) = toLowerCase ''tok'' \<longrightarrow> is_closed q = Some True"
    by (simp add: cl)
  have cmds: "toLowerCase ''add-capital'' \<in> {''add-capital'', ''withdraw'', ''claim-fee'', ''close''}"
    "toLowerCase ''withdraw'' \<in> {''add-capital'', ''withdraw'', ''claim-fee'', ''close''}"
    "toLowerCase ''claim-fee'' \<in> {''add-capital'', ''withdraw'', ''claim-fee'', ''close''}"
    "toLowerCase ''close'' \<in> {''add-capital'', ''withdraw'', ''claim-fee'', ''close''}"
    by (simp_all add: toLowerCase_def lower_char_def)
  have nums: "jgt (parseFloat demo_runtime ''100'') (Fin 0)" "jgt (parseFloat demo_runtime ''50'') (Fin 0)"
    "jgt (parseFloat demo_runtime ''5'') (Fin 0)" "jgt (parseFloat demo_runtime ''500'') (Fin 0)"
    "\<not> isNaN (parseFloat demo_runtime (hd [''10'']))"
    by code_simp+
  have f: "findActivePosition [?closed, ?second] ''tok'' = Some ?second"
    by code_simp
  have inv: "storeInvariant [?closed]"
    by code_simp
  have run: "main demo_runtime [''tok'', ''200''] [?closed]
               = Saved [?closed, initializePosition demo_runtime ''tok'' (Fin 200)]"
    by code_simp
  note inst = closed_positions_frozen [where entries = "[?closed]" and tok = "''tok''" and rt = demo_runtime]
  from inst [where c = "''add-capital''" and x = "''100''" and ys = "[]"] all cmds(1) nums(1)
  have 1: "main demo_runtime [''add-capital'', ''tok'', ''100''] [?closed] = Exit NotFound" by blast
  from inst [where c = "''withdraw''" and x = "''50''" and ys = "[]"] all cmds(2) nums(2)
  have 2: "main demo_runtime [''withdraw'', ''tok'', ''50''] [?closed] = Exit NotFound" by blast
  from inst [where c = "''claim-fee''" and x = "''5''" and ys = "[]"] all cmds(3) nums(3)
  have 3: "main demo_runtime [''claim-fee'', ''tok'', ''5''] [?closed] = Exit NotFound" by blast
  from inst [where c = "''close''" and x = "''500''" and ys = "[''10'']"] all cmds(4) nums(4,5)
  have 4: "main demo_runtime [''close'', ''tok'', ''500'', ''10''] [?closed] = Exit NotFound" by blast
  from inst [where positions = "[?closed, ?second]" and p = ?second] f
  have 5: "is_closed ?second \<noteq> Some True" by blast
  from inst [where args = "[''tok'', ''200'']"
      and s = "[?closed, initializePosition demo_runtime ''tok'' (Fin 200)]"] inv run
  have 6: "storeInvariant [?closed, initializePosition demo_runtime ''tok'' (Fin 200)]" by blast
  from cl 1 2 3 4 f 5 inv run 6 show ?thesis by blast
qed

text \<open>
  Claim C7, as stated, fails: \<^verbatim>\<open>parseFloat\<close> reads \<^verbatim>\<open>Infinity\<close> as a number and
  \<^verbatim>\<open>12abc\<close> as 12, no command checks that a number is finite, and both runs below write
  the store.
\<close>

theorem non_finite_amount_is_saved:
  "parseFloat demo_runtime ''Infinity'' = PosInf
   \<and> \<not> isFinite (parseFloat demo_runtime ''Infinity'')
   \<and> main demo_runtime [''withdraw'', ''tok'', ''Infinity''] [demo_position] =
       Saved [demo_position\<lparr>withdrawn_usd := Some PosInf, last_updated := 1000\<rparr>]
   \<and> parseFloat demo_runtime ''12abc'' = Fin 12
   \<and> main demo_runtime [''add-capital'', ''tok'', ''12abc''] [demo_position] =
       Saved [demo_position\<lparr>capital_additions_usd := Some (Fin 112),
                Position.total_invested_usd := Some (Fin 312), last_updated := 1000\<rparr>]"
  by code_simp

text \<open>
  Claim C7, amended. Every numeric argument is read with \<^verbatim>\<open>parseFloat\<close> and the command
  exits, before any write, when the result is NaN: the value of reset, the amount of
  claim-fee, add-capital and withdraw, the exit value and the final fees of close, the
  value and the fees of the generic command. The amount of claim-fee, add-capital and
  withdraw and the exit value of close are also refused when they are not above 0.
\<close>

theorem invalid_numbers_rejected:
  "(toLowerCase c \<in> {''reset'', ''claim-fee'', ''add-capital'', ''withdraw'', ''close''}
      \<and> isNaN (parseFloat rt x)
      \<longrightarrow> main rt (c # tok # x # rest) entries = Exit NotANumber)
   \<and> (toLowerCase c \<in> {''claim-fee'', ''add-capital'', ''withdraw''} \<and> jle (parseFloat rt x) (Fin 0)
      \<longrightarrow> main rt (c # tok # x # rest) entries = Exit NotPositive)
   \<and> (toLowerCase c = ''close'' \<and> jle (parseFloat rt x) (Fin 0)
      \<longrightarrow> main rt (c # tok # x # rest) entries \<in> {Exit NotPositive, Exit NotANumber})
   \<and> (toLowerCase c = ''close'' \<and> isNaN (parseFloat rt y)
      \<longrightarrow> main rt (c # tok # x # y # rest) entries = Exit NotANumber)
   \<and> (toLowerCase c \<notin> {''list'', ''closed'', ''summary'', ''clean'', ''remove'', ''reset'',
          ''claim-fee'', ''add-capital'', ''withdraw'', ''close''}
      \<and> (isNaN (parseFloat rt x) \<or> isNaN (parseFloat rt y))
      \<longrightarrow> main rt (c # x # y # rest) entries = Exit NotANumber)
   \<and> (toLowerCase c \<notin> {''list'', ''closed'', ''summary'', ''clean'', ''remove'', ''reset'',
          ''claim-fee'', ''add-capital'', ''withdraw'', ''close''}
      \<and> isNaN (parseFloat rt x)
      \<longrightarrow> main rt [c, x] entries = Exit NotANumber)"
proof -
  have a: "toLowerCase c \<in> {''reset'', ''claim-fee'', ''add-capital'', ''withdraw'', ''close''}
      \<and> isNaN (parseFloat rt x)
      \<longrightarrow> main rt (c # tok # x # rest) entries = Exit NotANumber"
    by (auto simp: main_reserved main_close cmd_reset_def cmd_claim_fee_def cmd_add_capital_def
        cmd_withdraw_def cmd_close_def Let_def)
  have b: "toLowerCase c \<in> {''claim-fee'', ''add-capital'', ''withdraw''} \<and> jle (parseFloat rt x) (Fin 0)
      \<longrightarrow> main rt (c # tok # x # rest) entries = Exit NotPositive"
    by (auto simp: main_reserved cmd_claim_fee_def cmd_add_capital_def
        cmd_withdraw_def Let_def dest: jle_not_NaN)
  have c: "toLowerCase c = ''close'' \<and> jle (parseFloat rt x) (Fin 0)
      \<longrightarrow> main rt (c # tok # x # rest) entries \<in> {Exit NotPositive, Exit NotANumber}"
    by (auto simp: main_close cmd_close_def Let_def dest: jle_not_NaN)
  have d: "toLowerCase c = ''close'' \<and> isNaN (parseFloat rt y)
      \<longrightarrow> main rt (c # tok # x # y # rest) entries = Exit NotANumber"
    by (auto simp: main_close cmd_close_def Let_def)
  have e: "toLowerCase c \<notin> {''list'', ''closed'', ''summary'', ''clean'', ''remove'', ''reset'',
          ''claim-fee'', ''add-capital'', ''withdraw'', ''close''}
      \<and> (isNaN (parseFloat rt x) \<or> isNaN (parseFloat rt y))
      \<longrightarrow> main rt (c # x # y # rest) entries = Exit NotANumber"
    using main_record [of c rt "x # y # rest" entries] by (auto simp: cmd_record_def Let_def)
  have f: "toLowerCase c \<notin> {''list'', ''closed'', ''summary'', ''clean'', ''remove'', ''reset'',
          ''claim-fee'', ''add-capital'', ''withdraw'', ''close''}
      \<and> isNaN (parseFloat rt x)
      \<longrightarrow> main rt [c, x] entries = Exit NotANumber"
    using main_record [of c rt "[x]" entries] by (auto simp: cmd_record_def Let_def)
  from a b c d e f show ?thesis by blast
qed

theorem invalid_numbers_rejected_witness:
  "isNaN (parseFloat demo_runtime ''abc'')
   \<and> main demo_runtime [''withdraw'', ''tok'', ''abc''] [demo_position] = Exit NotANumber
   \<and> main demo_runtime [''reset'', ''tok'', ''abc''] [demo_position] = Exit NotANumber
   \<and> jle (parseFloat demo_runtime ''-3'') (Fin 0)
   \<and> main demo_runtime [''claim-fee'', ''tok'', ''-3''] [demo_position] = Exit NotPositive
   \<and> jle (parseFloat demo_runtime ''0'') (Fin 0)
   \<and> main demo_runtime [''add-capital'', ''tok'', ''0''] [demo_position] = Exit NotPositive
   \<and> main demo_runtime [''close'', ''tok'', ''0''] [demo_position] \<in> {Exit NotPositive, Exit NotANumber}
   \<and> main demo_runtime [''close'', ''tok'', ''500'', ''abc''] [demo_position] = Exit NotANumber
   \<and> main demo_runtime [''tok'', ''250'', ''abc''] [demo_position] = Exit NotANumber
   \<and> main demo_runtime [''tok'', ''abc''] [demo_position] = Exit NotANumber"
proof -
  have nan: "isNaN (parseFloat demo_runtime ''abc'')"
    and neg: "jle (parseFloat demo_runtime ''-3'') (Fin 0)"
    and zero: "jle (parseFloat demo_runtime ''0'') (Fin 0)"
    by code_simp+
  have lc: "toLowerCase ''withdraw'' = ''withdraw''" "toLowerCase ''reset'' = ''reset''"
    "toLowerCase ''claim-fee'' = ''claim-fee''" "toLowerCase ''add-capital'' = ''add-capital''"
    "toLowerCase ''close'' = ''close''" "toLowerCase ''tok'' = ''tok''"
    by (simp_all add: toLowerCase_def lower_char_def)
  note inst = invalid_numbers_rejected [where rt = demo_runtime and entries = "[demo_position]"
      and tok = "''tok''"]
  from inst [where c = "''withdraw''" and x = "''abc''" and rest = "[]"] nan lc
  have 1: "main demo_runtime [''withdraw'', ''tok'', ''abc''] [demo_position] = Exit NotANumber"
    by simp
  from inst [where c = "''reset''" and x = "''abc''" and rest = "[]"] nan lc
  have 2: "main demo_runtime [''reset'', ''tok'', ''abc''] [demo_position] = Exit NotANumber"
    by simp
  from inst [where c = "''claim-fee''" and x = "''-3''" and rest = "[]"] neg lc
  have 3: "main demo_runtime [''claim-fee'', ''tok'', ''-3''] [demo_position] = Exit NotPositive"
    by simp
  from inst [where c = "''add-capital''" and x = "''0''" and rest = "[]"] zero lc
  have 4: "main demo_runtime [''add-capital'', ''tok'', ''0''] [demo_position] = Exit NotPositive"
    by simp
  from inst [where c = "''close''" and x = "''0''" and rest = "[]"] zero lc
  have 5: "main demo_runtime [''close'', ''tok'', ''0''] [demo_position]
             \<in> {Exit NotPositive, Exit NotANumber}"
    by simp
  from inst [where c = "''close''" and x = "''500''" and y = "''abc''" and rest = "[]"] nan lc
  have 6: "main demo_runtime [''close'', ''tok'', ''500'', ''abc''] [demo_position] = Exit NotANumber"
    by simp
  from inst [where c = "''tok''" and x = "''250''" and y = "''abc''" and rest = "[]"] nan lc
  have 7: "main demo_runtime [''tok'', ''250'', ''abc''] [demo_position] = Exit NotANumber"
    by simp
  from inst [where c = "''tok''" and x = "''abc''"] nan lc
  have 8: "main demo_runtime [''tok'', ''abc''] [demo_position] = Exit NotANumber"
    by simp
  from nan neg zero 1 2 3 4 5 6 7 8 show ?thesis by blast
qed

text \<open>
  Claim C8 at a failing input. On a position with 5 of fees claimed, the generic command
  with a fees argument of -5 stores 0, and close with final fees of -10 stores -5: the
  fees claimed go down. The claim-fee command refuses such an amount.
\<close>

theorem negative_fees_lower_fees_claimed:
  "fees_claimed_usd demo_position = Fin 5
   \<and> main demo_runtime [''tok'', ''250'', ''-5''] [demo_position] =
       Saved [demo_position\<lparr>fees_claimed_usd := Fin 0, last_updated := 1000\<rparr>]
   \<and> main demo_runtime [''close'', ''tok'', ''500'', ''-10''] [demo_position] =
       Saved [demo_position\<lparr>fees_claimed_usd := Fin (- 5), last_updated := 1000,
                closed_at := Some 1000, exit_value_usd := Some (Fin 500),
                final_pnl_usd := Some (Fin 245), final_pnl_percentage := Some (Fin (245 / 3)),
                is_closed := Some True\<rparr>]"
  by code_simp

section \<open>Properties of the aggregate report\<close>

lemma jgt_not_jlt: "jgt v (Fin 0) \<Longrightarrow> \<not> jlt v (Fin 0)"
  by (cases v) (simp_all add: jgt_def)

lemma summaryStep_counts:
  "winningPositions (summaryStep t p) =
     winningPositions t + (if jgt (orZero (final_pnl_usd p)) (Fin 0) then 1 else 0)"
  "losingPositions (summaryStep t p) =
     losingPositions t + (if jlt (orZero (final_pnl_usd p)) (Fin 0) then 1 else 0)"
  "totalWinPnlUSD (summaryStep t p) =
     (if jgt (orZero (final_pnl_usd p)) (Fin 0)
      then jadd (totalWinPnlUSD t) (orZero (final_pnl_usd p)) else totalWinPnlUSD t)"
  "totalLossPnlUSD (summaryStep t p) =
     (if jlt (orZero (final_pnl_usd p)) (Fin 0)
      then jadd (totalLossPnlUSD t) (orZero (final_pnl_usd p)) else totalLossPnlUSD t)"
  by (auto simp: summaryStep_def Let_def dest: jgt_not_jlt)

lemma fold_counts:
  "winningPositions (foldl summaryStep t ps) =
     winningPositions t + length (filter (\<lambda>p. jgt (orZero (final_pnl_usd p)) (Fin 0)) ps)"
  "losingPositions (foldl summaryStep t ps) =
     losingPositions t + length (filter (\<lambda>p. jlt (orZero (final_pnl_usd p)) (Fin 0)) ps)"
  "totalWinPnlUSD (foldl summaryStep t ps) =
     foldl jadd (totalWinPnlUSD t)
       (map (\<lambda>p. orZero (final_pnl_usd p)) (filter (\<lambda>p. jgt (orZero (final_pnl_usd p)) (Fin 0)) ps))"
  "totalLossPnlUSD (foldl summaryStep t ps) =
     foldl jadd (totalLossPnlUSD t)
       (map (\<lambda>p. orZero (final_pnl_usd p)) (filter (\<lambda>p. jlt (orZero (final_pnl_usd p)) (Fin 0)) ps))"
  by (induction ps arbitrary: t) (simp_all add: summaryStep_counts)

lemma jle_zero_iff: "jle v (Fin 0) \<longleftrightarrow> v = NegInf \<or> (\<exists>r\<le>0. v = Fin r)"
  by (cases v) (auto simp: jle_def)

lemma jlt_zero_iff: "jlt v (Fin 0) \<longleftrightarrow> v = NegInf \<or> (\<exists>r<0. v = Fin r)"
  by (cases v) auto

lemma loss_sum_nonpos:
  "jle a (Fin 0) \<Longrightarrow> \<forall>v\<in>set vs. jlt v (Fin 0) \<Longrightarrow> jle (foldl jadd a vs) (Fin 0)"
proof (induction vs arbitrary: a)
  case Nil
  then show ?case by simp
next
  case (Cons v vs)
  from Cons.prems have "jle (jadd a v) (Fin 0)"
    by (auto simp: jle_zero_iff jlt_zero_iff intro: add_nonpos_nonpos)
  with Cons show ?case by simp
qed

lemma loss_term_nonpos:
  assumes "jle lossSum (Fin 0)" and "k \<le> n"
  shows "jle (jmul (if 0 < (n::nat) then jdiv (num k) (num n) else Fin 0)
                   (if 0 < k then jdiv lossSum (num k) else Fin 0)) (Fin 0)"
proof (cases "0 < k")
  case True
  with assms(2) have n: "0 < n" by simp
  from assms(1) consider "lossSum = NegInf" | r where "r \<le> 0" "lossSum = Fin r"
    by (auto simp: jle_zero_iff)
  then show ?thesis
  proof cases
    case 1
    with True n show ?thesis by (simp add: num_def jle_def)
  next
    case 2
    with True n have "rat_of_nat k / rat_of_nat n * (r / rat_of_nat k) \<le> 0"
      by (simp add: mult_nonneg_nonpos divide_nonpos_pos)
    with True n 2 show ?thesis by (simp add: num_def jle_zero_iff)
  qed
next
  case False
  then show ?thesis by (auto simp: num_def jle_def)
qed

lemma summary_fields:
  "winningPositions (calculateSummaryStats ps) = winningPositions (foldl summaryStep initialTotals ps)"
  "losingPositions (calculateSummaryStats ps) = losingPositions (foldl summaryStep initialTotals ps)"
  "totalWinPnlUSD (calculateSummaryStats ps) = totalWinPnlUSD (foldl summaryStep initialTotals ps)"
  "totalLossPnlUSD (calculateSummaryStats ps) = totalLossPnlUSD (foldl summaryStep initialTotals ps)"
  by (simp_all add: calculateSummaryStats_def Let_def Totals.extend_def)

lemma summary_rates:
  "winRate (calculateSummaryStats ps)
     = (if ps = [] then Fin 0
        else jmul (jdiv (num (winningPositions (foldl summaryStep initialTotals ps))) (num (length ps)))
               (Fin 100))"
  "expectedValueUSD (calculateSummaryStats ps)
     = jadd (jmul (if ps = [] then Fin 0
                   else jdiv (num (winningPositions (foldl summaryStep initialTotals ps))) (num (length ps)))
                  (if 0 < winningPositions (foldl summaryStep initialTotals ps)
                   then jdiv (totalWinPnlUSD (foldl summaryStep initialTotals ps))
                             (num (winningPositions (foldl summaryStep initialTotals ps)))
                   else Fin 0))
            (jmul (if ps = [] then Fin 0
                   else jdiv (num (losingPositions (foldl summaryStep initialTotals ps))) (num (length ps)))
                  (if 0 < losingPositions (foldl summaryStep initialTotals ps)
                   then jdiv (totalLossPnlUSD (foldl summaryStep initialTotals ps))
                             (num (losingPositions (foldl summaryStep initialTotals ps)))
                   else Fin 0))"
  by (simp_all add: calculateSummaryStats_def Let_def Totals.extend_def)

lemma initialTotals_fields:
  "winningPositions initialTotals = 0" "losingPositions initialTotals = 0"
  "totalWinPnlUSD initialTotals = Fin 0" "totalLossPnlUSD initialTotals = Fin 0"
  by (simp_all add: initialTotals_def)

text \<open>
  Claim C9. For every list of closed positions the statistics count a position as a win
  when its final PnL is above 0 and as a loss when it is below 0; the win rate is
  wins / positions * 100, and 0 for the empty list; the expected value is
  P(win) * average win + P(loss) * average loss, where an average is the sum of the
  winning (losing) PnLs over their number, or 0 when there is none, and the loss term is
  never above 0. For three positions with PnLs 100, -50 and 20 the win rate is 200 / 3,
  printed 66.7, and the expected value is (2/3) * 60 + (1/3) * (-50), printed 23.33.
\<close>

theorem summary_win_rate_expected_value:
  "winningPositions (calculateSummaryStats ps)
     = length (filter (\<lambda>p. jgt (orZero (final_pnl_usd p)) (Fin 0)) ps)
   \<and> losingPositions (calculateSummaryStats ps)
     = length (filter (\<lambda>p. jlt (orZero (final_pnl_usd p)) (Fin 0)) ps)
   \<and> winRate (calculateSummaryStats ps)
     = (if ps = [] then Fin 0
        else jmul (jdiv (num (winningPositions (calculateSummaryStats ps))) (num (length ps))) (Fin 100))
   \<and> totalWinPnlUSD (calculateSummaryStats ps)
     = foldl jadd (Fin 0) (map (\<lambda>p. orZero (final_pnl_usd p))
         (filter (\<lambda>p. jgt (orZero (final_pnl_usd p)) (Fin 0)) ps))
   \<and> totalLossPnlUSD (calculateSummaryStats ps)
     = foldl jadd (Fin 0) (map (\<lambda>p. orZero (final_pnl_usd p))
         (filter (\<lambda>p. jlt (orZero (final_pnl_usd p)) (Fin 0)) ps))
   \<and> expectedValueUSD (calculateSummaryStats ps)
     = jadd (jmul (if ps = [] then Fin 0
                   else jdiv (num (winningPositions (calculateSummaryStats ps))) (num (length ps)))
                  (if 0 < winningPositions (calculateSummaryStats ps)
                   then jdiv (totalWinPnlUSD (calculateSummaryStats ps))
                             (num (winningPositions (calculateSummaryStats ps)))
                   else Fin 0))
            (jmul (if ps = [] then Fin 0
                   else jdiv (num (losingPositions (calculateSummaryStats ps))) (num (length ps)))
                  (if 0 < losingPositions (calculateSummaryStats ps)
                   then jdiv (totalLossPnlUSD (calculateSummaryStats ps))
                             (num (losingPositions (calculateSummaryStats ps)))
                   else Fin 0))
   \<and> jle (jmul (if ps = [] then Fin 0
                else jdiv (num (losingPositions (calculateSummaryStats ps))) (num (length ps)))
               (if 0 < losingPositions (calculateSummaryStats ps)
                then jdiv (totalLossPnlUSD (calculateSummaryStats ps))
                          (num (losingPositions (calculateSummaryStats ps)))
                else Fin 0)) (Fin 0)
   \<and> winRate (calculateSummaryStats
        [a\<lparr>final_pnl_usd := Some (Fin 100)\<rparr>, b\<lparr>final_pnl_usd := Some (Fin (- 50))\<rparr>,
         c\<lparr>final_pnl_usd := Some (Fin 20)\<rparr>]) = Fin (200 / 3)
   \<and> toFixed_dec (Fin (200 / 3)) 1 = ''66.7''
   \<and> expectedValueUSD (calculateSummaryStats
        [a\<lparr>final_pnl_usd := Some (Fin 100)\<rparr>, b\<lparr>final_pnl_usd := Some (Fin (- 50))\<rparr>,
         c\<lparr>final_pnl_usd := Some (Fin 20)\<rparr>]) = Fin (2 / 3 * 60 + 1 / 3 * (- 50))
   \<and> toFixed_dec (Fin (2 / 3 * 60 + 1 / 3 * (- 50))) 2 = ''23.33''"
proof -
  let ?t = "foldl summaryStep initialTotals ps"
  note fields = summary_fields [of ps]
  note rates = summary_rates [of ps]
  have counts: "winningPositions ?t = length (filter (\<lambda>p. jgt (orZero (final_pnl_usd p)) (Fin 0)) ps)"
    "losingPositions ?t = length (filter (\<lambda>p. jlt (orZero (final_pnl_usd p)) (Fin 0)) ps)"
    "totalWinPnlUSD ?t = foldl jadd (Fin 0) (map (\<lambda>p. orZero (final_pnl_usd p))
         (filter (\<lambda>p. jgt (orZero (final_pnl_usd p)) (Fin 0)) ps))"
    "totalLossPnlUSD ?t = foldl jadd (Fin 0) (map (\<lambda>p. orZero (final_pnl_usd p))
         (filter (\<lambda>p. jlt (orZero (final_pnl_usd p)) (Fin 0)) ps))"
    by (simp_all add: fold_counts initialTotals_fields)
  have "jle (totalLossPnlUSD ?t) (Fin 0)"
    unfolding counts by (rule loss_sum_nonpos) (simp_all add: jle_def)
  moreover have "losingPositions ?t \<le> length ps"
    unfolding counts by simp
  ultimately have "jle (jmul (if 0 < length ps then jdiv (num (losingPositions ?t)) (num (length ps))
                              else Fin 0)
               (if 0 < losingPositions ?t
                then jdiv (totalLossPnlUSD ?t) (num (losingPositions ?t)) else Fin 0)) (Fin 0)"
    by (rule loss_term_nonpos)
  then have loss: "jle (jmul (if ps = [] then Fin 0
                else jdiv (num (losingPositions ?t)) (num (length ps)))
               (if 0 < losingPositions ?t
                then jdiv (totalLossPnlUSD ?t) (num (losingPositions ?t)) else Fin 0)) (Fin 0)"
    by (cases ps) simp_all
  have ex: "winRate (calculateSummaryStats
        [a\<lparr>final_pnl_usd := Some (Fin 100)\<rparr>, b\<lparr>final_pnl_usd := Some (Fin (- 50))\<rparr>,
         c\<lparr>final_pnl_usd := Some (Fin 20)\<rparr>]) = Fin (200 / 3)"
    "expectedValueUSD (calculateSummaryStats
        [a\<lparr>final_pnl_usd := Some (Fin 100)\<rparr>, b\<lparr>final_pnl_usd := Some (Fin (- 50))\<rparr>,
         c\<lparr>final_pnl_usd := Some (Fin 20)\<rparr>]) = Fin (2 / 3 * 60 + 1 / 3 * (- 50))"
    by (simp_all add: summary_rates summaryStep_counts initialTotals_fields orZero_def num_def)
  have shown: "toFixed_dec (Fin (200 / 3)) 1 = ''66.7''"
    "toFixed_dec (Fin (2 / 3 * 60 + 1 / 3 * (- 50))) 2 = ''23.33''"
    by code_simp+
  note parts = counts [folded fields] rates [folded fields] loss [folded fields] ex shown
  show ?thesis
    by (intro conjI) (rule parts)+
qed

end
